theory Spec2Isabelle
  imports Main "HOL-Library.Word"
begin

section \<open>Go library functions the code calls\<close>

text \<open>Go strings are byte sequences; so is \<open>string\<close> here. An \<open>error\<close> value is
  modelled by its message, the nil error by \<open>None\<close>.\<close>

type_synonym error = string

text \<open>\<open>fmt.Errorf("<prefix>%w", err)\<close>: the message of the wrapped error after the prefix.\<close>

definition Errorf :: "string \<Rightarrow> error \<Rightarrow> error" where
  "Errorf prefix err = prefix @ err"

text \<open>\<open>strings.HasPrefix\<close>, \<open>strings.HasSuffix\<close>, \<open>strings.Contains\<close>.\<close>

definition HasPrefix :: "string \<Rightarrow> string \<Rightarrow> bool" where
  "HasPrefix s p = (take (length p) s = p)"

definition HasSuffix :: "string \<Rightarrow> string \<Rightarrow> bool" where
  "HasSuffix s suf = (length suf \<le> length s \<and> drop (length s - length suf) s = suf)"

fun Contains :: "string \<Rightarrow> string \<Rightarrow> bool" where
  "Contains [] sub = (sub = [])"
| "Contains (c # cs) sub = (HasPrefix (c # cs) sub \<or> Contains cs sub)"

text \<open>\<open>strings.Split(s, sep)\<close> for a separator of one byte: the pieces between the
  separators, so always at least one piece (\<open>Split("", "/")\<close> is \<open>[""]\<close>).\<close>

fun Split :: "string \<Rightarrow> char \<Rightarrow> string list" where
  "Split [] sep = [[]]"
| "Split (c # cs) sep =
     (if c = sep then [] # Split cs sep
      else (case Split cs sep of
              [] \<Rightarrow> [[c]]
            | p # ps \<Rightarrow> (c # p) # ps))"

text \<open>\<open>fmt.Sprintf("%d", i)\<close>: the decimal digits of \<open>i\<close>, most significant first, after
  a minus sign when \<open>i\<close> is negative.\<close>

definition digit_char :: "nat \<Rightarrow> char" where
  "digit_char d = ''0123456789'' ! d"

fun digits :: "nat \<Rightarrow> string" where
  "digits n = (if n < 10 then [digit_char n] else digits (n div 10) @ [digit_char (n mod 10)])"

declare digits.simps [simp del]

definition Sprintf_d :: "int \<Rightarrow> string" where
  "Sprintf_d i = (if i < 0 then CHR ''-'' # digits (nat (- i)) else digits (nat i))"

text \<open>Reading a decimal string back (\<open>strconv.ParseInt(s, 10, 64)\<close> without its range
  check), used to say that a string is the decimal rendering of a number.\<close>

definition digit_val :: "char \<Rightarrow> nat" where
  "digit_val c = of_char c - 48"

definition is_digit :: "char \<Rightarrow> bool" where
  "is_digit c = (48 \<le> (of_char c :: nat) \<and> (of_char c :: nat) \<le> 57)"

fun dec_nat :: "nat \<Rightarrow> string \<Rightarrow> nat" where
  "dec_nat acc [] = acc"
| "dec_nat acc (c # cs) = dec_nat (10 * acc + digit_val c) cs"

fun parse_dec :: "string \<Rightarrow> int option" where
  "parse_dec [] = None"
| "parse_dec (c # cs) =
     (if c = CHR ''-'' then
        (if cs \<noteq> [] \<and> list_all is_digit cs then Some (- int (dec_nat 0 cs)) else None)
      else if list_all is_digit (c # cs) then Some (int (dec_nat 0 (c # cs))) else None)"

section \<open>Data model\<close>

subsection \<open>HTTP requests and responses\<close>

text \<open>A body is a single-read stream (\<open>io.ReadCloser\<close>): the bytes still to be read, and
  the error, if any, that reading meets after them instead of EOF.\<close>

datatype body = Body (pending: string) (read_error: "error option")

text \<open>\<open>io.ReadAll\<close> returns the bytes read and the error met (nil at EOF), and leaves the
  stream drained.\<close>

definition ReadAll :: "body \<Rightarrow> string \<times> error option" where
  "ReadAll b = (pending b, read_error b)"

definition drained :: "body \<Rightarrow> body" where
  "drained b = Body [] (read_error b)"

text \<open>\<open>io.NopCloser(strings.NewReader(string(data)))\<close>: a fresh stream of \<open>data\<close> that
  ends in EOF.\<close>

definition NopCloser_NewReader :: "string \<Rightarrow> body" where
  "NopCloser_NewReader d = Body d None"

text \<open>\<open>http.Header\<close> is a \<open>map[string][]string\<close>; \<open>Get\<close> returns the first value of the
  key, or the empty string. (\<open>Get\<close> looks the canonical form of the key up; the only
  key of the code, \<open>Message-Type\<close>, is canonical already.)\<close>

type_synonym header = "string \<rightharpoonup> string list"

definition Header_Get :: "header \<Rightarrow> string \<Rightarrow> string" where
  "Header_Get h k = (case h k of None \<Rightarrow> [] | Some [] \<Rightarrow> [] | Some (v # vs) \<Rightarrow> v)"

record request =
  Method :: string
  URL_Path :: string
  ReqHeader :: header
  ReqBody :: body

record response =
  StatusCode :: nat
  Header :: header
  RespBody :: body

subsection \<open>The ledger package's values and the client interface\<close>

text \<open>Modelled from the spec: the package \<open>internal/ledger\<close> is not among the sources;
  its two value types are taken from the spec's data model and external interfaces
  (the passport: an identifying UUID and an ordered list of records; the commissioning
  request: controller identifier, certificate, deployment location and timestamp, all
  strings), with the field names the middleware uses.\<close>

record ProductItemPassport =
  UUID :: string
  Records :: "string list"

record CommissioningCreateRequest =
  ControllerUUID :: string
  Cert :: string
  DeployedLocation :: string
  Timestamp :: string

text \<open>\<open>LedgerClient\<close>, the interface of the proxy package. An implementation is given by
  what its two methods return; a nil interface value is \<open>None\<close> where a client is held.\<close>

record LedgerClient =
  GetProductItemPassport :: "string \<Rightarrow> error + ProductItemPassport"
  CreateCommissioningPassport :: "CommissioningCreateRequest \<Rightarrow> error option"

subsection \<open>The world: what the code does beyond returning\<close>

datatype level = Info | Warn | Error

datatype handler_name =
  HandleDIAppStart | HandleDISetCredentials | HandleTO2HelloDevice | HandleTO2Done2

record command =
  cmd_name :: string
  cmd_args :: "string list"
  cmd_dir :: string

text \<open>The observable steps, in the order they happen: \<open>slog\<close> calls (level, message,
  attributes), the entry into a handler of an interceptor, the two calls to the external
  service, the launch of a child process (with the pid on success), a health probe of the
  backend (port probed, whether it answered 200), the listener bound to an address, a
  request handed to the reverse proxy for the backend, and the reply written to the
  client.\<close>

datatype event =
    Log level string "(string \<times> string) list"
  | Enter handler_name
  | LedgerGet string
  | LedgerCreate CommissioningCreateRequest
  | Spawn command "error + nat"
  | Probe int bool
  | Listen string
  | Forward request
  | Reply response

text \<open>\<open>now\<close> is what \<open>time.Now().UnixNano()\<close> returns, an \<open>int64\<close>.\<close>

record world =
  trace :: "event list"
  now :: "64 word"

definition emit :: "event \<Rightarrow> world \<Rightarrow> world" where
  "emit e s = s\<lparr>trace := trace s @ [e]\<rparr>"

section \<open>The Stage-A interceptor (di.go)\<close>

record DIMiddleware =
  di_ledgerClient :: "LedgerClient option"
  enableProductPassport :: bool

definition NewDIMiddleware :: "LedgerClient option \<Rightarrow> bool \<Rightarrow> DIMiddleware" where
  "NewDIMiddleware client enable =
     \<lparr>di_ledgerClient = client, enableProductPassport = enable\<rparr>"

definition isDIRequest :: "request \<Rightarrow> bool" where
  "isDIRequest req =
     (Contains (URL_Path req) ''/fdo/101/msg/'' \<and>
      (HasSuffix (URL_Path req) ''/10'' \<or> HasSuffix (URL_Path req) ''/12''))"

definition isDIResponse :: "response \<Rightarrow> bool" where
  "isDIResponse resp =
     (let msgType = Header_Get (Header resp) ''Message-Type''
      in msgType = ''11'' \<or> msgType = ''13'')"

definition extractProductID :: "string \<Rightarrow> string" where
  "extractProductID data =
     (if Contains data ''productId'' then ''example-product-id'' else [])"

definition handleDIAppStart ::
  "DIMiddleware \<Rightarrow> request \<Rightarrow> world \<Rightarrow> error option \<times> request \<times> world" where
  "handleDIAppStart m req s0 =
     (let s = emit (Enter HandleDIAppStart) s0 in
      if \<not> enableProductPassport m then (None, req, s)
      else
        (case di_ledgerClient m of
           None \<Rightarrow> (None, req, s)
         | Some client \<Rightarrow>
             (case ReadAll (ReqBody req) of
                (data, Some err) \<Rightarrow>
                  (Some (Errorf ''failed to read request body: '' err),
                   req\<lparr>ReqBody := drained (ReqBody req)\<rparr>, s)
              | (data, None) \<Rightarrow>
                  (let req' = req\<lparr>ReqBody := NopCloser_NewReader data\<rparr>;
                       productID = extractProductID data
                   in if productID = [] then (None, req', s)
                      else
                        (let s1 = emit (LedgerGet productID) s in
                         case GetProductItemPassport client productID of
                           Inl err \<Rightarrow>
                             (None, req',
                              emit (Log Warn ''Failed to get product passport''
                                      [(''product_id'', productID), (''error'', err)]) s1)
                         | Inr passport \<Rightarrow>
                             (None, req',
                              emit (Log Info ''Retrieved product item passport''
                                      [(''uuid'', UUID passport),
                                       (''records'',
                                        Sprintf_d (int (length (Records passport))))]) s1))))))"

definition handleDISetCredentials ::
  "DIMiddleware \<Rightarrow> response \<Rightarrow> world \<Rightarrow> error option \<times> response \<times> world" where
  "handleDISetCredentials m resp s0 =
     (let s = emit (Enter HandleDISetCredentials) s0
      in (None, resp, emit (Log Info ''DI.SetCredentials completed successfully'' []) s))"

definition DI_ProcessRequest ::
  "DIMiddleware \<Rightarrow> request \<Rightarrow> world \<Rightarrow> error option \<times> request \<times> world" where
  "DI_ProcessRequest m req s =
     (if \<not> isDIRequest req then (None, req, s)
      else
        (let pathParts = Split (URL_Path req) CHR ''/'' in
         if length pathParts < 5 then (None, req, s)
         else
           (let msgType = pathParts ! 4 in
            if msgType = ''10'' then handleDIAppStart m req s
            else (None, req, s))))"

definition DI_ProcessResponse ::
  "DIMiddleware \<Rightarrow> response \<Rightarrow> world \<Rightarrow> error option \<times> response \<times> world" where
  "DI_ProcessResponse m resp s =
     (if \<not> isDIResponse resp then (None, resp, s)
      else
        (let msgType = Header_Get (Header resp) ''Message-Type'' in
         if msgType = ''11'' then handleDISetCredentials m resp s
         else (None, resp, s)))"

section \<open>The Stage-B interceptor (to2.go)\<close>

record TO2Middleware =
  to2_ledgerClient :: "LedgerClient option"
  ownerID :: string

definition NewTO2Middleware :: "LedgerClient option \<Rightarrow> string \<Rightarrow> TO2Middleware" where
  "NewTO2Middleware client owner = \<lparr>to2_ledgerClient = client, ownerID = owner\<rparr>"

definition isTO2Request :: "request \<Rightarrow> bool" where
  "isTO2Request req =
     (Contains (URL_Path req) ''/fdo/101/msg/'' \<and>
      (HasSuffix (URL_Path req) ''/60'' \<or> HasSuffix (URL_Path req) ''/70''))"

definition isTO2Response :: "response \<Rightarrow> bool" where
  "isTO2Response resp =
     (let msgType = Header_Get (Header resp) ''Message-Type'' in msgType = ''71'')"

definition extractDeviceGUID :: "response \<Rightarrow> string" where
  "extractDeviceGUID resp = ''example-device-guid''"

definition handleTO2HelloDevice ::
  "TO2Middleware \<Rightarrow> request \<Rightarrow> world \<Rightarrow> error option \<times> request \<times> world" where
  "handleTO2HelloDevice m req s0 =
     (let s = emit (Enter HandleTO2HelloDevice) s0
      in (None, req, emit (Log Info ''TO2.HelloDevice request received'' []) s))"

definition handleTO2Done2 ::
  "TO2Middleware \<Rightarrow> response \<Rightarrow> world \<Rightarrow> error option \<times> response \<times> world" where
  "handleTO2Done2 m resp s0 =
     (let s = emit (Enter HandleTO2Done2) s0 in
      case to2_ledgerClient m of
        None \<Rightarrow> (None, resp, s)
      | Some client \<Rightarrow>
          (let deviceGUID = extractDeviceGUID resp in
           if deviceGUID = [] then
             (None, resp,
              emit (Log Warn ''Could not extract device GUID from TO2.Done2 response'' []) s)
           else
             (let reqBody =
                    \<lparr>ControllerUUID = deviceGUID, Cert = [], DeployedLocation = [],
                     Timestamp = Sprintf_d (sint (now s))\<rparr>;
                  s1 = emit (LedgerCreate reqBody) s
              in case CreateCommissioningPassport client reqBody of
                   Some err \<Rightarrow>
                     (None, resp,
                      emit (Log Warn ''Failed to create commissioning passport''
                              [(''controller_uuid'', deviceGUID), (''error'', err)]) s1)
                 | None \<Rightarrow>
                     (None, resp,
                      emit (Log Info ''Created commissioning passport''
                              [(''controller_uuid'', ControllerUUID reqBody)]) s1))))"

definition TO2_ProcessRequest ::
  "TO2Middleware \<Rightarrow> request \<Rightarrow> world \<Rightarrow> error option \<times> request \<times> world" where
  "TO2_ProcessRequest m req s =
     (if \<not> isTO2Request req then (None, req, s)
      else
        (let pathParts = Split (URL_Path req) CHR ''/'' in
         if length pathParts < 5 then (None, req, s)
         else
           (let msgType = pathParts ! 4 in
            if msgType = ''60'' then handleTO2HelloDevice m req s
            else (None, req, s))))"

definition TO2_ProcessResponse ::
  "TO2Middleware \<Rightarrow> response \<Rightarrow> world \<Rightarrow> error option \<times> response \<times> world" where
  "TO2_ProcessResponse m resp s =
     (if \<not> isTO2Response resp then (None, resp, s)
      else
        (let msgType = Header_Get (Header resp) ''Message-Type'' in
         if msgType = ''71'' then handleTO2Done2 m resp s
         else (None, resp, s)))"

section \<open>The proxy dispatcher and the backend supervisor (package proxy)\<close>

text \<open>\<open>Middleware\<close> is an interface. Its implementations in the repository are the two
  interceptors above; \<open>Other\<close> stands for any implementation from elsewhere (a test
  stub, say), given by what the dispatcher sees of it: the error each method returns and
  the request or response it leaves behind the pointer.\<close>

datatype Middleware =
    DI DIMiddleware
  | TO2 TO2Middleware
  | Other "request \<Rightarrow> error option \<times> request" "response \<Rightarrow> error option \<times> response"

fun ProcessRequest ::
  "Middleware \<Rightarrow> request \<Rightarrow> world \<Rightarrow> error option \<times> request \<times> world" where
  "ProcessRequest (DI m) req s = DI_ProcessRequest m req s"
| "ProcessRequest (TO2 m) req s = TO2_ProcessRequest m req s"
| "ProcessRequest (Other f g) req s = (fst (f req), snd (f req), s)"

fun ProcessResponse ::
  "Middleware \<Rightarrow> response \<Rightarrow> world \<Rightarrow> error option \<times> response \<times> world" where
  "ProcessResponse (DI m) resp s = DI_ProcessResponse m resp s"
| "ProcessResponse (TO2 m) resp s = TO2_ProcessResponse m resp s"
| "ProcessResponse (Other f g) resp s = (fst (g resp), snd (g resp), s)"

text \<open>\<open>backendCmd\<close> holds the command and, once it is started, the pid of its process;
  \<open>server\<close> holds the address of the \<open>http.Server\<close> (its handler is \<open>handler\<close> below).
  The mutex only orders concurrent calls and is left out.\<close>

record FDOProxy =
  backendURL :: "string option"
  backendCmd :: "(command \<times> nat option) option"
  backendPort :: int
  ledgerClient :: "LedgerClient option"
  middleware :: "Middleware list"
  server :: "string option"

definition NewFDOProxy ::
  "string \<Rightarrow> string list \<Rightarrow> string \<Rightarrow> LedgerClient option \<Rightarrow> Middleware list \<Rightarrow> FDOProxy" where
  "NewFDOProxy fdoServerPath fdoArgs listenAddr client mws =
     \<lparr>backendURL = None, backendCmd = None, backendPort = 8081,
      ledgerClient = client, middleware = mws, server = None\<rparr>"

text \<open>What the code meets outside itself: what \<open>cmd.Start()\<close> returns for a command,
  given all that happened before (an error, or the pid of the new process); what the
  successive rounds of the \<open>select\<close> in \<open>waitForBackend\<close> receive; what binding the
  listener returns; the requests that arrive once it listens; what the backend answers to
  a forwarded request; and whether the server is ever shut down.\<close>

datatype select_event = Timeout | Tick bool

record env =
  cmd_Start :: "event list \<Rightarrow> command \<Rightarrow> error + nat"
  selects :: "select_event list"
  bind :: "string \<Rightarrow> error option"
  incoming :: "request list"
  backend :: "request \<Rightarrow> error + response"
  shutdown :: bool

text \<open>A call either returns or blocks for ever.\<close>

datatype 'a outcome = Blocks | Returns 'a

definition startBackendServer ::
  "env \<Rightarrow> FDOProxy \<Rightarrow> world \<Rightarrow> error option \<times> FDOProxy \<times> world" where
  "startBackendServer ev p s =
     (let args = [''-db'', ''./fdo-backend.db'',
                  ''-http'', ''localhost:'' @ Sprintf_d (backendPort p),
                  ''-debug''];
          cmd = \<lparr>cmd_name = ''go'', cmd_args = [''run'', ''./cmd/server''] @ args,
                 cmd_dir = ''../go-fdo''\<rparr>
      in case cmd_Start ev (trace s) cmd of
           Inl err \<Rightarrow>
             (Some (Errorf ''failed to start FDO server: '' err),
              p\<lparr>backendCmd := Some (cmd, None)\<rparr>,
              emit (Spawn cmd (Inl err)) s)
         | Inr pid \<Rightarrow>
             (None,
              p\<lparr>backendCmd := Some (cmd, Some pid)\<rparr>,
              emit (Log Info ''Backend FDO server started''
                      [(''pid'', Sprintf_d (int pid)), (''port'', Sprintf_d (backendPort p))])
                (emit (Spawn cmd (Inr pid)) s)))"

text \<open>The loop of \<open>waitForBackend\<close>, one round of the \<open>select\<close> per element: the timeout
  ends it with an error, a tick probes the health endpoint and ends it when the probe
  had no error and status 200. When nothing more is ever received the call blocks.\<close>

fun waitForBackend_loop ::
  "int \<Rightarrow> select_event list \<Rightarrow> world \<Rightarrow> error option outcome \<times> world" where
  "waitForBackend_loop port [] s = (Blocks, s)"
| "waitForBackend_loop port (Timeout # evs) s =
     (Returns (Some ''timeout waiting for backend server''), s)"
| "waitForBackend_loop port (Tick ok # evs) s =
     (let s1 = emit (Probe port ok) s
      in if ok then (Returns None, s1) else waitForBackend_loop port evs s1)"

definition waitForBackend ::
  "env \<Rightarrow> FDOProxy \<Rightarrow> world \<Rightarrow> error option outcome \<times> world" where
  "waitForBackend ev p s = waitForBackend_loop (backendPort p) (selects ev) s"

fun processRequest_loop ::
  "Middleware list \<Rightarrow> request \<Rightarrow> world \<Rightarrow> error option \<times> request \<times> world" where
  "processRequest_loop [] req s = (None, req, s)"
| "processRequest_loop (mw # mws) req s =
     (case ProcessRequest mw req s of
        (Some err, req', s') \<Rightarrow>
          (Some (Errorf ''middleware request processing failed: '' err), req', s')
      | (None, req', s') \<Rightarrow> processRequest_loop mws req' s')"

definition processRequest ::
  "FDOProxy \<Rightarrow> request \<Rightarrow> world \<Rightarrow> error option \<times> request \<times> world" where
  "processRequest p req s = processRequest_loop (middleware p) req s"

fun modifyResponse_loop ::
  "Middleware list \<Rightarrow> response \<Rightarrow> world \<Rightarrow> error option \<times> response \<times> world" where
  "modifyResponse_loop [] resp s = (None, resp, s)"
| "modifyResponse_loop (mw # mws) resp s =
     (case ProcessResponse mw resp s of
        (Some err, resp', s') \<Rightarrow>
          modifyResponse_loop mws resp'
            (emit (Log Error ''Middleware response processing failed'' [(''error'', err)]) s')
      | (None, resp', s') \<Rightarrow> modifyResponse_loop mws resp' s')"

definition modifyResponse ::
  "FDOProxy \<Rightarrow> response \<Rightarrow> world \<Rightarrow> error option \<times> response \<times> world" where
  "modifyResponse p resp s = modifyResponse_loop (middleware p) resp s"

text \<open>\<open>http.Error(w, msg, code)\<close>: a plain-text reply of that status whose body is the
  message and a newline.\<close>

definition http_Error :: "string \<Rightarrow> nat \<Rightarrow> response" where
  "http_Error msg code =
     \<lparr>StatusCode = code,
      Header = [''Content-Type'' \<mapsto> [''text/plain; charset=utf-8''],
                ''X-Content-Type-Options'' \<mapsto> [''nosniff'']],
      RespBody = Body (msg @ [CHR 0x0A]) None\<rparr>"

text \<open>The reverse proxy of \<open>net/http/httputil\<close>, as far as the dispatcher relies on it:
  \<open>ServeHTTP\<close> sends the request to the backend; on a transport error, or when the
  \<open>ModifyResponse\<close> hook returns an error, it answers 502 with an empty body; otherwise
  it writes the response, as the hook left it, to the client.\<close>

definition bad_gateway :: response where
  "bad_gateway = \<lparr>StatusCode = 502, Header = Map.empty, RespBody = Body [] None\<rparr>"

definition ServeHTTP :: "env \<Rightarrow> FDOProxy \<Rightarrow> request \<Rightarrow> world \<Rightarrow> world" where
  "ServeHTTP ev p req s0 =
     (let s = emit (Forward req) s0 in
      case backend ev req of
        Inl err \<Rightarrow> emit (Reply bad_gateway) s
      | Inr resp \<Rightarrow>
          (case modifyResponse p resp s of
             (Some err, resp', s') \<Rightarrow> emit (Reply bad_gateway) s'
           | (None, resp', s') \<Rightarrow> emit (Reply resp') s'))"

text \<open>The handler that \<open>Start\<close> installs in the server.\<close>

definition handler :: "env \<Rightarrow> FDOProxy \<Rightarrow> request \<Rightarrow> world \<Rightarrow> world" where
  "handler ev p r s =
     (case processRequest p r s of
        (Some err, r', s') \<Rightarrow>
          emit (Reply (http_Error ''Internal Server Error'' 500))
            (emit (Log Error ''Request processing failed'' [(''error'', err)]) s')
      | (None, r', s') \<Rightarrow> ServeHTTP ev p r' s')"

text \<open>\<open>url.Parse\<close> of \<open>http://localhost:<port>\<close>: the port of a URL must be digits, so the
  text parses unless the number printed is negative; then the error names the text and
  the port (\<open>CHR 0x22\<close> is the double quote of the message).\<close>

definition url_Parse_backend :: "int \<Rightarrow> error + string" where
  "url_Parse_backend port =
     (let raw = ''http://localhost:'' @ Sprintf_d port in
      if port < 0 then
        Inl (''parse '' @ [CHR 0x22] @ raw @ [CHR 0x22] @ '': invalid port '' @
             [CHR 0x22] @ '':'' @ Sprintf_d port @ [CHR 0x22] @ '' after host'')
      else Inr raw)"

text \<open>\<open>ListenAndServe\<close>: when the address cannot be bound it returns the error at once;
  otherwise the server listens and handles what arrives (here one request after the
  other), and returns \<open>ErrServerClosed\<close> if it is ever shut down.\<close>

definition ListenAndServe ::
  "env \<Rightarrow> FDOProxy \<Rightarrow> string \<Rightarrow> world \<Rightarrow> error outcome \<times> world" where
  "ListenAndServe ev p addr s =
     (case bind ev addr of
        Some err \<Rightarrow> (Returns err, s)
      | None \<Rightarrow>
          (let s' = fold (handler ev p) (incoming ev) (emit (Listen addr) s)
           in (if shutdown ev then Returns ''http: Server closed'' else Blocks, s')))"

definition Start ::
  "env \<Rightarrow> FDOProxy \<Rightarrow> string \<Rightarrow> world \<Rightarrow> error outcome \<times> FDOProxy \<times> world" where
  "Start ev p listenAddr s =
     (case startBackendServer ev p s of
        (Some err, p1, s1) \<Rightarrow>
          (Returns (Errorf ''failed to start backend FDO server: '' err), p1, s1)
      | (None, p1, s1) \<Rightarrow>
          (case waitForBackend ev p1 s1 of
             (Blocks, s2) \<Rightarrow> (Blocks, p1, s2)
           | (Returns (Some err), s2) \<Rightarrow>
               (Returns (Errorf ''backend server not ready: '' err), p1, s2)
           | (Returns None, s2) \<Rightarrow>
               (case url_Parse_backend (backendPort p1) of
                  Inl err \<Rightarrow> (Returns (Errorf ''invalid backend URL: '' err), p1, s2)
                | Inr u \<Rightarrow>
                    (let p2 = p1\<lparr>backendURL := Some u, server := Some listenAddr\<rparr>;
                         s3 = emit (Log Info ''FDO proxy server starting''
                                      [(''listen_addr'', listenAddr),
                                       (''backend_port'', Sprintf_d (backendPort p1))]) s2
                     in case ListenAndServe ev p2 listenAddr s3 of
                          (r, s4) \<Rightarrow> (r, p2, s4)))))"

section \<open>The orchestrator (cmd/server/main.go)\<close>

text \<open>The flags, and how \<open>main\<close> builds the proxy from them. \<open>ledger.NewClient\<close> is not
  among the sources: what it returns is a parameter. The log lines of \<open>main\<close> are left
  out.\<close>

record flags =
  flag_listen :: string
  flag_fdo_path :: string
  flag_product_base_url :: string
  flag_commissioning_url :: string
  flag_enable_product_passport :: bool
  flag_owner_id :: string

definition main_ledgerClient :: "flags \<Rightarrow> error + LedgerClient \<Rightarrow> LedgerClient option" where
  "main_ledgerClient fl newClient =
     (if flag_product_base_url fl \<noteq> [] \<or> flag_commissioning_url fl \<noteq> [] then
        (case newClient of Inl err \<Rightarrow> None | Inr c \<Rightarrow> Some c)
      else None)"

definition main_middlewareList :: "flags \<Rightarrow> LedgerClient option \<Rightarrow> Middleware list" where
  "main_middlewareList fl client =
     (if flag_enable_product_passport fl
      then [DI (NewDIMiddleware client (flag_enable_product_passport fl))] else []) @
     (if flag_owner_id fl \<noteq> [] then [TO2 (NewTO2Middleware client (flag_owner_id fl))] else [])"

definition main_proxy :: "flags \<Rightarrow> error + LedgerClient \<Rightarrow> FDOProxy" where
  "main_proxy fl newClient =
     (let client = main_ledgerClient fl newClient
      in NewFDOProxy (flag_fdo_path fl) [] (flag_listen fl) client
           (main_middlewareList fl client))"

section \<open>Observations on the trace\<close>

text \<open>The events that a step from world \<open>s\<close> to world \<open>s'\<close> appended.\<close>

definition added :: "world \<Rightarrow> world \<Rightarrow> event list" where
  "added s s' = drop (length (trace s)) (trace s')"

text \<open>The calls to the External Service Client among some events, in order.\<close>

fun is_ledger_call :: "event \<Rightarrow> bool" where
  "is_ledger_call (LedgerGet u) = True"
| "is_ledger_call (LedgerCreate r) = True"
| "is_ledger_call e = False"

definition ledger_calls :: "event list \<Rightarrow> event list" where
  "ledger_calls evs = filter is_ledger_call evs"

fun is_Log :: "event \<Rightarrow> bool" where
  "is_Log (Log l msg attrs) = True"
| "is_Log e = False"

fun is_Forward :: "event \<Rightarrow> bool" where
  "is_Forward (Forward r) = True"
| "is_Forward e = False"

fun is_Spawn :: "event \<Rightarrow> bool" where
  "is_Spawn (Spawn c r) = True"
| "is_Spawn e = False"

text \<open>The events of an interceptor: handler entries, log lines and calls to the
  external service.\<close>

fun is_interceptor_event :: "event \<Rightarrow> bool" where
  "is_interceptor_event (Log l msg attrs) = True"
| "is_interceptor_event (Enter h) = True"
| "is_interceptor_event (LedgerGet u) = True"
| "is_interceptor_event (LedgerCreate r) = True"
| "is_interceptor_event e = False"

fun is_Listen :: "event \<Rightarrow> bool" where
  "is_Listen (Listen a) = True"
| "is_Listen e = False"

text \<open>The command that \<open>startBackendServer\<close> builds for a proxy.\<close>

definition backend_command :: "FDOProxy \<Rightarrow> command" where
  "backend_command p =
     \<lparr>cmd_name = ''go'',
      cmd_args = [''run'', ''./cmd/server'', ''-db'', ''./fdo-backend.db'',
                  ''-http'', ''localhost:'' @ Sprintf_d (backendPort p), ''-debug''],
      cmd_dir = ''../go-fdo''\<rparr>"

text \<open>World \<open>s'\<close> comes from world \<open>s\<close> by interceptor events only: the clock is the
  same, the trace of \<open>s\<close> is kept, and what was appended are interceptor events.\<close>

definition steps :: "world \<Rightarrow> world \<Rightarrow> bool" where
  "steps s s' =
     (now s' = now s \<and> take (length (trace s)) (trace s') = trace s \<and>
      list_all is_interceptor_event (added s s'))"




text \<open>Every interceptor of the chain, run in chain order on the request as its
  predecessors left it, returns nil.\<close>

fun all_return_nil :: "Middleware list \<Rightarrow> request \<Rightarrow> world \<Rightarrow> bool" where
  "all_return_nil [] req s = True"
| "all_return_nil (mw # mws) req s =
     (case ProcessRequest mw req s of
        (Some err, req', s') \<Rightarrow> False
      | (None, req', s') \<Rightarrow> all_return_nil mws req' s')"

section \<open>Example inputs\<close>

definition world0 :: world where
  "world0 = \<lparr>trace = [], now = 1700000000123456789\<rparr>"


definition stub_client :: LedgerClient where
  "stub_client =
     \<lparr>GetProductItemPassport = (\<lambda>u. Inr \<lparr>UUID = u, Records = [''r1'', ''r2'']\<rparr>),
      CreateCommissioningPassport = (\<lambda>r. None)\<rparr>"

definition app_start_request :: request where
  "app_start_request =
     \<lparr>Method = ''POST'', URL_Path = ''/fdo/101/msg/10'', ReqHeader = Map.empty,
      ReqBody = Body ''{productId: abc}'' None\<rparr>"

definition done2_response :: response where
  "done2_response =
     \<lparr>StatusCode = 200, Header = [''Message-Type'' \<mapsto> [''71'']],
      RespBody = Body ''done'' None\<rparr>"

definition set_credentials_response :: response where
  "set_credentials_response =
     \<lparr>StatusCode = 200, Header = [''Message-Type'' \<mapsto> [''11'']],
      RespBody = Body ''creds'' None\<rparr>"

definition failing_interceptor :: Middleware where
  "failing_interceptor =
     Other (\<lambda>r. (Some ''stub request failure'', r)) (\<lambda>r. (Some ''stub response failure'', r))"

definition env0 :: env where
  "env0 =
     \<lparr>cmd_Start = (\<lambda>h c. Inr 4242), selects = [Tick False, Tick True],
      bind = (\<lambda>a. None), incoming = [app_start_request],
      backend = (\<lambda>r. Inr done2_response), shutdown = False\<rparr>"

text \<open>A first and a second call of \<open>startBackendServer\<close> on a fresh proxy.\<close>

definition started_once :: "error option \<times> FDOProxy \<times> world" where
  "started_once = startBackendServer env0 (NewFDOProxy [] [] [] None []) world0"

definition started_twice :: "error option \<times> FDOProxy \<times> world" where
  "started_twice = startBackendServer env0 (fst (snd started_once)) (snd (snd started_once))"

section \<open>Facts about the library functions\<close>

subsection \<open>Strings\<close>

lemma Split_nonempty: "Split s sep \<noteq> []"
  by (induction s) (auto split: list.splits)

lemma Split_append_sep: "Split (a @ sep # b) sep = Split a sep @ Split b sep"
proof (induction a)
  case Nil
  show ?case by simp
next
  case (Cons c a)
  obtain p ps where sp: "Split a sep = p # ps"
    using Split_nonempty [of a sep] by (cases "Split a sep") auto
  show ?case using Cons sp by simp
qed

lemma Split_no_sep: "sep \<notin> set a \<Longrightarrow> Split a sep = [a]"
  by (induction a) auto

lemma HasPrefix_append [simp]: "HasPrefix (p @ s) p"
  by (simp add: HasPrefix_def)

lemma Contains_iff: "Contains s sub \<longleftrightarrow> (\<exists>pre post. s = pre @ sub @ post)"
proof (induction s)
  case Nil
  show ?case by auto
next
  case (Cons c cs)
  show ?case
  proof
    assume "Contains (c # cs) sub"
    then consider "HasPrefix (c # cs) sub" | "Contains cs sub" by auto
    then show "\<exists>pre post. c # cs = pre @ sub @ post"
    proof cases
      case 1
      then have "c # cs = [] @ sub @ drop (length sub) (c # cs)"
        unfolding HasPrefix_def by (metis append_Nil append_take_drop_id)
      then show ?thesis by blast
    next
      case 2
      then obtain pre post where "cs = pre @ sub @ post" using Cons by blast
      then have "c # cs = (c # pre) @ sub @ post" by simp
      then show ?thesis by blast
    qed
  next
    assume "\<exists>pre post. c # cs = pre @ sub @ post"
    then obtain pre post where e: "c # cs = pre @ sub @ post" by blast
    show "Contains (c # cs) sub"
    proof (cases pre)
      case Nil
      then have "HasPrefix (c # cs) sub" using e by (simp add: HasPrefix_def)
      then show ?thesis by simp
    next
      case (Cons x xs)
      then have "cs = xs @ sub @ post" using e by simp
      then have "Contains cs sub" using Cons.IH by blast
      then show ?thesis by simp
    qed
  qed
qed

lemma HasSuffix_append [simp]: "HasSuffix (s @ suf) suf"
  by (simp add: HasSuffix_def)

lemma HasSuffix_iff: "HasSuffix s suf \<longleftrightarrow> (\<exists>pre. s = pre @ suf)"
proof
  assume "HasSuffix s suf"
  then have "s = take (length s - length suf) s @ suf"
    unfolding HasSuffix_def by (metis append_take_drop_id)
  then show "\<exists>pre. s = pre @ suf" ..
next
  assume "\<exists>pre. s = pre @ suf"
  then show "HasSuffix s suf" by auto
qed

text \<open>A path of four segments.\<close>

lemma Split_path4:
  assumes "CHR ''/'' \<notin> set ns" "CHR ''/'' \<notin> set n" "CHR ''/'' \<notin> set t"
  shows "Split (''/'' @ ns @ ''/'' @ n @ ''/msg/'' @ t) CHR ''/'' = [[], ns, n, ''msg'', t]"
proof -
  have "Split (''/'' @ ns @ ''/'' @ n @ ''/msg/'' @ t) CHR ''/''
      = Split ([] @ CHR ''/'' # (ns @ CHR ''/'' # (n @ CHR ''/'' # (''msg'' @ CHR ''/'' # t)))) CHR ''/''"
    by simp
  also have "\<dots> = [[], ns, n, ''msg'', t]"
    unfolding Split_append_sep using assms by (simp add: Split_no_sep)
  finally show ?thesis .
qed

lemma Contains_path4:
  assumes "CHR ''/'' \<notin> set ns" "CHR ''/'' \<notin> set n" "CHR ''/'' \<notin> set t"
  shows "Contains (''/'' @ ns @ ''/'' @ n @ ''/msg/'' @ t) ''/fdo/101/msg/''
         \<longleftrightarrow> ns = ''fdo'' \<and> n = ''101''"
proof
  assume "ns = ''fdo'' \<and> n = ''101''"
  then have "''/'' @ ns @ ''/'' @ n @ ''/msg/'' @ t = [] @ ''/fdo/101/msg/'' @ t" by simp
  then show "Contains (''/'' @ ns @ ''/'' @ n @ ''/msg/'' @ t) ''/fdo/101/msg/''"
    unfolding Contains_iff by blast
next
  assume "Contains (''/'' @ ns @ ''/'' @ n @ ''/msg/'' @ t) ''/fdo/101/msg/''"
  then obtain pre post where e: "''/'' @ ns @ ''/'' @ n @ ''/msg/'' @ t = pre @ ''/fdo/101/msg/'' @ post"
    unfolding Contains_iff by blast
  have "pre @ ''/fdo/101/msg/'' @ post
      = pre @ CHR ''/'' # (''fdo'' @ CHR ''/'' # (''101'' @ CHR ''/'' # (''msg'' @ CHR ''/'' # post)))"
    by simp
  then have A: "Split (pre @ ''/fdo/101/msg/'' @ post) CHR ''/''
      = Split pre CHR ''/'' @ [''fdo'', ''101'', ''msg''] @ Split post CHR ''/''"
    by (simp only: Split_append_sep) (simp add: Split_no_sep)
  have B: "Split (pre @ ''/fdo/101/msg/'' @ post) CHR ''/'' = [[], ns, n, ''msg'', t]"
    using Split_path4 [OF assms] by (simp only: e)
  obtain x xs where sx: "Split pre CHR ''/'' = x # xs"
    using Split_nonempty [of pre "CHR ''/''"] by (cases "Split pre CHR ''/''") auto
  obtain y ys where sy: "Split post CHR ''/'' = y # ys"
    using Split_nonempty [of post "CHR ''/''"] by (cases "Split post CHR ''/''") auto
  have eq: "[[], ns, n, ''msg'', t] = (x # xs) @ [''fdo'', ''101'', ''msg''] @ (y # ys)"
    using B [symmetric] A unfolding sx sy by (rule trans)
  then have "length [[], ns, n, ''msg'', t]
      = length ((x # xs) @ [''fdo'', ''101'', ''msg''] @ (y # ys))"
    by (rule arg_cong)
  then have "xs = []" "ys = []" by simp_all
  then show "ns = ''fdo'' \<and> n = ''101''" using eq by simp
qed


subsection \<open>Decimal rendering\<close>

lemma digit_char_cases:
  assumes "d < 10"
  shows "is_digit (digit_char d) \<and> digit_val (digit_char d) = d \<and> digit_char d \<noteq> CHR ''-''"
proof -
  from assms have "d = 0 \<or> d = 1 \<or> d = 2 \<or> d = 3 \<or> d = 4 \<or> d = 5 \<or> d = 6 \<or> d = 7 \<or> d = 8 \<or> d = 9"
    by arith
  then show ?thesis
    by (elim disjE) (simp_all add: digit_char_def is_digit_def digit_val_def)
qed

lemma digits_nonempty: "digits n \<noteq> []"
  by (subst digits.simps) simp

lemma dec_nat_append: "dec_nat acc (xs @ ys) = dec_nat (dec_nat acc xs) ys"
  by (induction xs arbitrary: acc) simp_all

lemma digits_all_digit: "list_all is_digit (digits n)"
proof (induction n rule: digits.induct)
  case (1 n)
  show ?case
  proof (cases "n < 10")
    case True
    then show ?thesis by (subst digits.simps) (simp add: digit_char_cases)
  next
    case False
    then have "list_all is_digit (digits (n div 10))" using 1 by simp
    moreover have "is_digit (digit_char (n mod 10))" by (simp add: digit_char_cases)
    ultimately show ?thesis using False by (subst digits.simps) simp
  qed
qed

lemma dec_nat_digits: "dec_nat 0 (digits n) = n"
proof (induction n rule: digits.induct)
  case (1 n)
  show ?case
  proof (cases "n < 10")
    case True
    then show ?thesis by (subst digits.simps) (simp add: digit_char_cases)
  next
    case False
    then have ih: "dec_nat 0 (digits (n div 10)) = n div 10" using 1 by simp
    have "dec_nat 0 (digits n) = dec_nat 0 (digits (n div 10) @ [digit_char (n mod 10)])"
      using False by (subst digits.simps) simp
    also have "\<dots> = 10 * (n div 10) + n mod 10"
      by (simp add: dec_nat_append ih digit_char_cases)
    finally show ?thesis by simp
  qed
qed

lemma hd_digits_not_minus: "hd (digits n) \<noteq> CHR ''-''"
proof -
  have "list_all (\<lambda>c. c \<noteq> CHR ''-'') (digits n)"
    using digits_all_digit [of n]
    by (induction "digits n") (auto simp: is_digit_def list_all_iff)
  then show ?thesis using digits_nonempty [of n]
    by (cases "digits n") simp_all
qed

lemma parse_dec_Sprintf_d: "parse_dec (Sprintf_d i) = Some i"
proof (cases "i < 0")
  case True
  then show ?thesis
    by (simp add: Sprintf_d_def digits_nonempty digits_all_digit dec_nat_digits)
next
  case False
  obtain c cs where d: "digits (nat i) = c # cs"
    using digits_nonempty [of "nat i"] by (cases "digits (nat i)") auto
  have c: "c \<noteq> CHR ''-''" using hd_digits_not_minus [of "nat i"] d by simp
  have "list_all is_digit (c # cs)" using digits_all_digit [of "nat i"] d by simp
  moreover have "dec_nat 0 (c # cs) = nat i" using dec_nat_digits [of "nat i"] d by simp
  ultimately show ?thesis using False c d
    by (simp add: Sprintf_d_def)
qed

section \<open>Facts about traces and handlers\<close>

subsection \<open>Traces\<close>

lemma trace_emit [simp]: "trace (emit e s) = trace s @ [e]"
  by (simp add: emit_def)

lemma now_emit [simp]: "now (emit e s) = now s"
  by (simp add: emit_def)

lemma added_self [simp]: "added s s = []"
  by (simp add: added_def)


lemma steps_iff: "steps s s' \<longleftrightarrow>
    (now s' = now s \<and> (\<exists>evs. trace s' = trace s @ evs \<and> list_all is_interceptor_event evs))"
proof
  assume h: "steps s s'"
  then have "trace s' = trace s @ added s s'"
    unfolding steps_def added_def by (metis append_take_drop_id)
  then show "now s' = now s \<and> (\<exists>evs. trace s' = trace s @ evs \<and> list_all is_interceptor_event evs)"
    using h unfolding steps_def by blast
next
  assume "now s' = now s \<and> (\<exists>evs. trace s' = trace s @ evs \<and> list_all is_interceptor_event evs)"
  then show "steps s s'" by (auto simp: steps_def added_def)
qed

lemma steps_refl [simp]: "steps s s"
  by (simp add: steps_iff)

lemma steps_trans: "steps s s' \<Longrightarrow> steps s' s'' \<Longrightarrow> steps s s''"
  unfolding steps_iff by auto

lemma steps_emit: "is_interceptor_event e \<Longrightarrow> steps s (emit e s)"
  by (simp add: steps_iff)

lemma steps_added: "steps s s' \<Longrightarrow> trace s' = trace s @ added s s'"
  unfolding steps_iff by (auto simp: added_def)


lemma steps_no_Forward: "steps s s' \<Longrightarrow> filter is_Forward (added s s') = []"
proof -
  assume "steps s s'"
  then have "list_all is_interceptor_event (added s s')" by (simp add: steps_def)
  moreover have "is_interceptor_event e \<Longrightarrow> \<not> is_Forward e" for e by (cases e) auto
  ultimately show ?thesis by (auto simp: list_all_iff filter_empty_conv)
qed

subsection \<open>The handlers\<close>

lemma handleDIAppStart_absent:
  "\<not> enableProductPassport m \<or> di_ledgerClient m = None \<Longrightarrow>
   handleDIAppStart m req s = (None, req, emit (Enter HandleDIAppStart) s)"
  by (auto simp: handleDIAppStart_def Let_def)

lemma handleTO2Done2_absent:
  "to2_ledgerClient m = None \<Longrightarrow>
   handleTO2Done2 m resp s = (None, resp, emit (Enter HandleTO2Done2) s)"
  by (simp add: handleTO2Done2_def Let_def)

lemma handleDIAppStart_steps: "steps s (snd (snd (handleDIAppStart m req s)))"
  by (auto simp: handleDIAppStart_def Let_def ReadAll_def steps_iff
           split: option.splits sum.splits)

lemma handleTO2Done2_steps: "steps s (snd (snd (handleTO2Done2 m resp s)))"
  by (auto simp: handleTO2Done2_def Let_def steps_iff split: option.splits)

lemma DI_ProcessRequest_steps: "steps s (snd (snd (DI_ProcessRequest m req s)))"
  by (simp add: DI_ProcessRequest_def Let_def handleDIAppStart_steps)

lemma DI_ProcessResponse_steps: "steps s (snd (snd (DI_ProcessResponse m resp s)))"
  by (simp add: DI_ProcessResponse_def Let_def handleDISetCredentials_def steps_iff)

lemma TO2_ProcessRequest_steps: "steps s (snd (snd (TO2_ProcessRequest m req s)))"
  by (simp add: TO2_ProcessRequest_def Let_def handleTO2HelloDevice_def steps_iff)

lemma TO2_ProcessResponse_steps: "steps s (snd (snd (TO2_ProcessResponse m resp s)))"
  by (simp add: TO2_ProcessResponse_def Let_def handleTO2Done2_steps)

lemma ProcessRequest_steps: "steps s (snd (snd (ProcessRequest mw req s)))"
  by (cases mw) (simp_all add: DI_ProcessRequest_steps TO2_ProcessRequest_steps)

lemma ProcessResponse_steps: "steps s (snd (snd (ProcessResponse mw resp s)))"
  by (cases mw) (simp_all add: DI_ProcessResponse_steps TO2_ProcessResponse_steps)

lemma DI_ProcessResponse_fst: "fst (DI_ProcessResponse m resp s) = None"
  by (simp add: DI_ProcessResponse_def Let_def handleDISetCredentials_def)


lemma handleTO2Done2_fst: "fst (handleTO2Done2 m resp s) = None"
  by (auto simp: handleTO2Done2_def Let_def split: option.splits)

lemma handleTO2Done2_resp: "fst (snd (handleTO2Done2 m resp s)) = resp"
  by (auto simp: handleTO2Done2_def Let_def split: option.splits)

lemma TO2_ProcessResponse_fst: "fst (TO2_ProcessResponse m resp s) = None"
  by (simp add: TO2_ProcessResponse_def Let_def handleTO2Done2_fst)



section \<open>The claims\<close>

subsection \<open>Interceptors\<close>

lemma ledger_calls_steps_DI_ProcessResponse:
  "ledger_calls (added s (snd (snd (DI_ProcessResponse m resp s)))) = []"
  by (simp add: DI_ProcessResponse_def Let_def handleDISetCredentials_def added_def
        ledger_calls_def)

lemma ledger_calls_TO2_ProcessRequest:
  "ledger_calls (added s (snd (snd (TO2_ProcessRequest t req s)))) = []"
  by (simp add: TO2_ProcessRequest_def Let_def handleTO2HelloDevice_def added_def
        ledger_calls_def)

text \<open>C5. When the feature is not configured, no call to the External Service Client is
  made, whatever the message type: with \<open>enableProductPassport\<close> false or a nil client,
  \<open>handleDIAppStart\<close> returns nil at once, leaving the request as it is (its body unread)
  and recording nothing but its own entry, and \<open>ProcessRequest\<close> of the Stage-A
  interceptor returns nil with no call and no log line for every request; with a nil
  client, \<open>handleTO2Done2\<close> and \<open>ProcessResponse\<close> of the Stage-B interceptor do the same
  for every response. The other two methods never call the client at all.\<close>

theorem no_feature_no_call:
  "(\<not> enableProductPassport m \<or> di_ledgerClient m = None \<longrightarrow>
      handleDIAppStart m req s = (None, req, emit (Enter HandleDIAppStart) s) \<and>
      fst (DI_ProcessRequest m req s) = None \<and>
      ledger_calls (added s (snd (snd (DI_ProcessRequest m req s)))) = [] \<and>
      filter is_Log (added s (snd (snd (DI_ProcessRequest m req s)))) = []) \<and>
   (to2_ledgerClient t = None \<longrightarrow>
      handleTO2Done2 t resp s = (None, resp, emit (Enter HandleTO2Done2) s) \<and>
      fst (TO2_ProcessResponse t resp s) = None \<and>
      ledger_calls (added s (snd (snd (TO2_ProcessResponse t resp s)))) = [] \<and>
      filter is_Log (added s (snd (snd (TO2_ProcessResponse t resp s)))) = []) \<and>
   ledger_calls (added s (snd (snd (DI_ProcessResponse m resp s)))) = [] \<and>
   ledger_calls (added s (snd (snd (TO2_ProcessRequest t req s)))) = []"
proof (intro conjI impI)
  assume h: "\<not> enableProductPassport m \<or> di_ledgerClient m = None"
  show a: "handleDIAppStart m req s = (None, req, emit (Enter HandleDIAppStart) s)"
    using h by (rule handleDIAppStart_absent)
  show "fst (DI_ProcessRequest m req s) = None"
    by (simp add: DI_ProcessRequest_def Let_def a)
  show "ledger_calls (added s (snd (snd (DI_ProcessRequest m req s)))) = []"
    by (simp add: DI_ProcessRequest_def Let_def a added_def ledger_calls_def)
  show "filter is_Log (added s (snd (snd (DI_ProcessRequest m req s)))) = []"
    by (simp add: DI_ProcessRequest_def Let_def a added_def)
next
  assume h: "to2_ledgerClient t = None"
  show a: "handleTO2Done2 t resp s = (None, resp, emit (Enter HandleTO2Done2) s)"
    using h by (rule handleTO2Done2_absent)
  show "fst (TO2_ProcessResponse t resp s) = None"
    by (simp add: TO2_ProcessResponse_def Let_def a)
  show "ledger_calls (added s (snd (snd (TO2_ProcessResponse t resp s)))) = []"
    by (simp add: TO2_ProcessResponse_def Let_def a added_def ledger_calls_def)
  show "filter is_Log (added s (snd (snd (TO2_ProcessResponse t resp s)))) = []"
    by (simp add: TO2_ProcessResponse_def Let_def a added_def)
next
  show "ledger_calls (added s (snd (snd (DI_ProcessResponse m resp s)))) = []"
    by (rule ledger_calls_steps_DI_ProcessResponse)
  show "ledger_calls (added s (snd (snd (TO2_ProcessRequest t req s)))) = []"
    by (rule ledger_calls_TO2_ProcessRequest)
qed

theorem no_feature_no_call_witness:
  "di_ledgerClient (NewDIMiddleware None True) = None \<and>
   isDIRequest app_start_request \<and>
   handleDIAppStart (NewDIMiddleware None True) app_start_request world0
     = (None, app_start_request, emit (Enter HandleDIAppStart) world0) \<and>
   fst (DI_ProcessRequest (NewDIMiddleware None True) app_start_request world0) = None \<and>
   ledger_calls (added world0
     (snd (snd (DI_ProcessRequest (NewDIMiddleware None True) app_start_request world0)))) = [] \<and>
   to2_ledgerClient (NewTO2Middleware None ''owner-1'') = None \<and>
   Header_Get (Header done2_response) ''Message-Type'' = ''71'' \<and>
   handleTO2Done2 (NewTO2Middleware None ''owner-1'') done2_response world0
     = (None, done2_response, emit (Enter HandleTO2Done2) world0) \<and>
   ledger_calls (added world0
     (snd (snd (TO2_ProcessResponse (NewTO2Middleware None ''owner-1'') done2_response world0)))) = []"
proof -
  have d: "\<not> enableProductPassport (NewDIMiddleware None True)
           \<or> di_ledgerClient (NewDIMiddleware None True) = None"
    by (simp add: NewDIMiddleware_def)
  have t: "to2_ledgerClient (NewTO2Middleware None ''owner-1'') = None"
    by (simp add: NewTO2Middleware_def)
  have r: "isDIRequest app_start_request"
    by (simp add: app_start_request_def isDIRequest_def HasPrefix_def HasSuffix_def)
  have h: "Header_Get (Header done2_response) ''Message-Type'' = ''71''"
    by (simp add: done2_response_def Header_Get_def)
  show ?thesis
    using no_feature_no_call [of "NewDIMiddleware None True" app_start_request world0
        "NewTO2Middleware None ''owner-1''" done2_response] d t r h
    by (simp add: NewDIMiddleware_def)
qed

text \<open>C4. The \<open>Message-Type\<close> header alone decides the response handler: the Stage-A
  interceptor enters \<open>handleDISetCredentials\<close> exactly when the header is \<open>11\<close>, the
  Stage-B interceptor enters \<open>handleTO2Done2\<close> exactly when it is \<open>71\<close>; with any other
  value, and with no header, \<open>ProcessResponse\<close> returns nil and does nothing; and two
  responses with the same header value get the same result and the same events.\<close>

theorem response_classification:
  "(Enter HandleDISetCredentials \<in> set (added s (snd (snd (DI_ProcessResponse m resp s))))
      \<longleftrightarrow> Header_Get (Header resp) ''Message-Type'' = ''11'') \<and>
   (Enter HandleTO2Done2 \<in> set (added s (snd (snd (TO2_ProcessResponse t resp s))))
      \<longleftrightarrow> Header_Get (Header resp) ''Message-Type'' = ''71'') \<and>
   (Header_Get (Header resp) ''Message-Type'' \<noteq> ''11'' \<longrightarrow>
      DI_ProcessResponse m resp s = (None, resp, s)) \<and>
   (Header_Get (Header resp) ''Message-Type'' \<noteq> ''71'' \<longrightarrow>
      TO2_ProcessResponse t resp s = (None, resp, s)) \<and>
   (Header resp ''Message-Type'' = None \<longrightarrow>
      DI_ProcessResponse m resp s = (None, resp, s) \<and>
      TO2_ProcessResponse t resp s = (None, resp, s)) \<and>
   (Header_Get (Header resp) ''Message-Type'' = Header_Get (Header resp') ''Message-Type'' \<longrightarrow>
      fst (DI_ProcessResponse m resp s) = fst (DI_ProcessResponse m resp' s) \<and>
      snd (snd (DI_ProcessResponse m resp s)) = snd (snd (DI_ProcessResponse m resp' s)) \<and>
      fst (TO2_ProcessResponse t resp s) = fst (TO2_ProcessResponse t resp' s) \<and>
      snd (snd (TO2_ProcessResponse t resp s)) = snd (snd (TO2_ProcessResponse t resp' s)))"
proof (intro conjI impI)
  show "Enter HandleDISetCredentials \<in> set (added s (snd (snd (DI_ProcessResponse m resp s))))
      \<longleftrightarrow> Header_Get (Header resp) ''Message-Type'' = ''11''"
    by (simp add: DI_ProcessResponse_def isDIResponse_def Let_def handleDISetCredentials_def
          added_def)
  have "Enter HandleTO2Done2 \<in> set (added s (snd (snd (handleTO2Done2 t resp s))))"
    by (auto simp: handleTO2Done2_def Let_def added_def split: option.splits)
  then show "Enter HandleTO2Done2 \<in> set (added s (snd (snd (TO2_ProcessResponse t resp s))))
      \<longleftrightarrow> Header_Get (Header resp) ''Message-Type'' = ''71''"
    by (simp add: TO2_ProcessResponse_def isTO2Response_def Let_def)
next
  assume "Header_Get (Header resp) ''Message-Type'' \<noteq> ''11''"
  then show "DI_ProcessResponse m resp s = (None, resp, s)"
    by (simp add: DI_ProcessResponse_def isDIResponse_def Let_def)
next
  assume "Header_Get (Header resp) ''Message-Type'' \<noteq> ''71''"
  then show "TO2_ProcessResponse t resp s = (None, resp, s)"
    by (simp add: TO2_ProcessResponse_def isTO2Response_def Let_def)
next
  assume "Header resp ''Message-Type'' = None"
  then have g: "Header_Get (Header resp) ''Message-Type'' = []"
    by (simp add: Header_Get_def)
  show "DI_ProcessResponse m resp s = (None, resp, s)"
    by (simp add: DI_ProcessResponse_def isDIResponse_def Let_def g)
  show "TO2_ProcessResponse t resp s = (None, resp, s)"
    by (simp add: TO2_ProcessResponse_def isTO2Response_def Let_def g)
next
  assume e: "Header_Get (Header resp) ''Message-Type'' = Header_Get (Header resp') ''Message-Type''"
  show "fst (DI_ProcessResponse m resp s) = fst (DI_ProcessResponse m resp' s)"
    by (simp add: DI_ProcessResponse_fst)
  show "snd (snd (DI_ProcessResponse m resp s)) = snd (snd (DI_ProcessResponse m resp' s))"
    using e by (simp add: DI_ProcessResponse_def isDIResponse_def Let_def handleDISetCredentials_def)
  show "fst (TO2_ProcessResponse t resp s) = fst (TO2_ProcessResponse t resp' s)"
    by (simp add: TO2_ProcessResponse_fst)
  have "snd (snd (handleTO2Done2 t resp s)) = snd (snd (handleTO2Done2 t resp' s))"
    by (auto simp: handleTO2Done2_def Let_def extractDeviceGUID_def split: option.splits)
  then show "snd (snd (TO2_ProcessResponse t resp s)) = snd (snd (TO2_ProcessResponse t resp' s))"
    using e by (simp add: TO2_ProcessResponse_def isTO2Response_def Let_def)
qed

theorem response_classification_witness:
  "Header_Get (Header done2_response) ''Message-Type'' = ''71'' \<and>
   Enter HandleTO2Done2 \<in> set (added world0 (snd (snd
     (TO2_ProcessResponse (NewTO2Middleware (Some stub_client) ''owner-1'') done2_response world0)))) \<and>
   DI_ProcessResponse (NewDIMiddleware (Some stub_client) True) done2_response world0
     = (None, done2_response, world0) \<and>
   snd (snd (TO2_ProcessResponse (NewTO2Middleware (Some stub_client) ''owner-1'')
               done2_response world0))
     = snd (snd (TO2_ProcessResponse (NewTO2Middleware (Some stub_client) ''owner-1'')
               (done2_response\<lparr>StatusCode := 201, RespBody := Body ''other'' None\<rparr>) world0)) \<and>
   Header_Get (Header set_credentials_response) ''Message-Type'' = ''11'' \<and>
   Enter HandleDISetCredentials \<in> set (added world0 (snd (snd
     (DI_ProcessResponse (NewDIMiddleware (Some stub_client) True)
        set_credentials_response world0)))) \<and>
   TO2_ProcessResponse (NewTO2Middleware (Some stub_client) ''owner-1'')
       set_credentials_response world0
     = (None, set_credentials_response, world0) \<and>
   Header (done2_response\<lparr>Header := Map.empty\<rparr>) ''Message-Type'' = None \<and>
   DI_ProcessResponse (NewDIMiddleware (Some stub_client) True)
       (done2_response\<lparr>Header := Map.empty\<rparr>) world0
     = (None, done2_response\<lparr>Header := Map.empty\<rparr>, world0) \<and>
   TO2_ProcessResponse (NewTO2Middleware (Some stub_client) ''owner-1'')
       (done2_response\<lparr>Header := Map.empty\<rparr>) world0
     = (None, done2_response\<lparr>Header := Map.empty\<rparr>, world0)"
proof -
  let ?m = "NewDIMiddleware (Some stub_client) True"
  let ?t = "NewTO2Middleware (Some stub_client) ''owner-1''"
  let ?other = "done2_response\<lparr>StatusCode := 201, RespBody := Body ''other'' None\<rparr>"
  let ?plain = "done2_response\<lparr>Header := Map.empty\<rparr>"
  have h71: "Header_Get (Header done2_response) ''Message-Type'' = ''71''"
    by (simp add: done2_response_def Header_Get_def)
  have h71': "Header_Get (Header ?other) ''Message-Type'' = ''71''"
    by (simp add: done2_response_def Header_Get_def)
  have h11: "Header_Get (Header set_credentials_response) ''Message-Type'' = ''11''"
    by (simp add: set_credentials_response_def Header_Get_def)
  have h0: "Header ?plain ''Message-Type'' = None"
    by simp
  have n11: "Header_Get (Header done2_response) ''Message-Type'' \<noteq> ''11''"
    by (simp add: h71)
  have n71: "Header_Get (Header set_credentials_response) ''Message-Type'' \<noteq> ''71''"
    by (simp add: h11)
  have same: "Header_Get (Header done2_response) ''Message-Type''
              = Header_Get (Header ?other) ''Message-Type''"
    by (simp only: h71 h71')
  note A = response_classification [of world0 ?m done2_response ?t ?other]
  note B = response_classification [of world0 ?m set_credentials_response ?t
             set_credentials_response]
  note C = response_classification [of world0 ?m ?plain ?t ?plain]
  have a1: "Enter HandleTO2Done2 \<in> set (added world0 (snd (snd
              (TO2_ProcessResponse ?t done2_response world0))))"
    using A h71 by blast
  have a2: "DI_ProcessResponse ?m done2_response world0 = (None, done2_response, world0)"
    using A n11 by blast
  have a3: "snd (snd (TO2_ProcessResponse ?t done2_response world0))
            = snd (snd (TO2_ProcessResponse ?t ?other world0))"
    using A same by blast
  have b1: "Enter HandleDISetCredentials \<in> set (added world0 (snd (snd
              (DI_ProcessResponse ?m set_credentials_response world0))))"
    using B h11 by blast
  have b2: "TO2_ProcessResponse ?t set_credentials_response world0
            = (None, set_credentials_response, world0)"
    using B n71 by blast
  have c1: "DI_ProcessResponse ?m ?plain world0 = (None, ?plain, world0)"
    using C h0 by blast
  have c2: "TO2_ProcessResponse ?t ?plain world0 = (None, ?plain, world0)"
    using C h0 by blast
  show ?thesis
    using h71 a1 a2 a3 h11 b1 b2 h0 c1 c2 by (intro conjI)
qed

text \<open>C8. For a response whose \<open>Message-Type\<close> header is \<open>71\<close> and an interceptor that
  holds a client, the Stage-B interceptor calls the client's write operation exactly once
  (and makes no other call), with a request whose \<open>ControllerUUID\<close> is the extracted
  device identifier, whose \<open>Cert\<close> and \<open>DeployedLocation\<close> are empty, and whose
  \<open>Timestamp\<close> is the decimal rendering of the clock's nanoseconds since the epoch at the
  call: reading the string back as a decimal number gives that number.\<close>

theorem commissioning_write_call:
  assumes "Header_Get (Header resp) ''Message-Type'' = ''71''"
    and "to2_ledgerClient t = Some c"
  shows "ledger_calls (added s (snd (snd (TO2_ProcessResponse t resp s))))
           = [LedgerCreate \<lparr>ControllerUUID = extractDeviceGUID resp, Cert = [],
                            DeployedLocation = [],
                            Timestamp = Sprintf_d (sint (now s))\<rparr>] \<and>
         parse_dec (Sprintf_d (sint (now s))) = Some (sint (now s)) \<and>
         fst (TO2_ProcessResponse t resp s) = None \<and>
         fst (snd (TO2_ProcessResponse t resp s)) = resp"
proof -
  have p: "TO2_ProcessResponse t resp s = handleTO2Done2 t resp s"
    using assms(1) by (simp add: TO2_ProcessResponse_def isTO2Response_def Let_def)
  have "ledger_calls (added s (snd (snd (handleTO2Done2 t resp s))))
           = [LedgerCreate \<lparr>ControllerUUID = extractDeviceGUID resp, Cert = [],
                            DeployedLocation = [],
                            Timestamp = Sprintf_d (sint (now s))\<rparr>]"
    using assms(2)
    by (auto simp: handleTO2Done2_def Let_def extractDeviceGUID_def added_def ledger_calls_def
             split: option.splits)
  then show ?thesis
    by (simp add: p parse_dec_Sprintf_d handleTO2Done2_fst handleTO2Done2_resp)
qed

theorem commissioning_write_call_witness:
  "Header_Get (Header done2_response) ''Message-Type'' = ''71'' \<and>
   to2_ledgerClient (NewTO2Middleware (Some stub_client) ''owner-1'') = Some stub_client \<and>
   ledger_calls (added world0 (snd (snd
       (TO2_ProcessResponse (NewTO2Middleware (Some stub_client) ''owner-1'')
          done2_response world0))))
     = [LedgerCreate \<lparr>ControllerUUID = ''example-device-guid'', Cert = [],
                      DeployedLocation = [], Timestamp = ''1700000000123456789''\<rparr>] \<and>
   parse_dec ''1700000000123456789'' = Some 1700000000123456789"
proof -
  have h: "Header_Get (Header done2_response) ''Message-Type'' = ''71''"
    by (simp add: done2_response_def Header_Get_def)
  have c: "to2_ledgerClient (NewTO2Middleware (Some stub_client) ''owner-1'') = Some stub_client"
    by (simp add: NewTO2Middleware_def)
  have n: "Sprintf_d (sint (now world0)) = ''1700000000123456789''"
    by (simp add: world0_def Sprintf_d_def digits.simps digit_char_def)
  have s: "sint (now world0) = 1700000000123456789"
    by (simp add: world0_def)
  note K = commissioning_write_call [OF h c, of world0, unfolded n, unfolded s
      extractDeviceGUID_def]
  have k1: "ledger_calls (added world0 (snd (snd
       (TO2_ProcessResponse (NewTO2Middleware (Some stub_client) ''owner-1'')
          done2_response world0))))
     = [LedgerCreate \<lparr>ControllerUUID = ''example-device-guid'', Cert = [],
                      DeployedLocation = [], Timestamp = ''1700000000123456789''\<rparr>]"
    using K by (rule conjunct1)
  have k2: "parse_dec ''1700000000123456789'' = Some 1700000000123456789"
    using K by blast
  show ?thesis
    using h c k1 k2 by (intro conjI)
qed

text \<open>C6. When \<open>handleDIAppStart\<close> of an interceptor with enrichment enabled returns
  nil, reading the body of the request it leaves gives exactly what reading the original
  body gave, and no other field of the request differs.\<close>

theorem request_body_restored:
  assumes "enableProductPassport m"
    and "handleDIAppStart m req s = (None, req', s')"
  shows "ReadAll (ReqBody req') = ReadAll (ReqBody req) \<and>
         req'\<lparr>ReqBody := ReqBody req\<rparr> = req"
proof (cases "di_ledgerClient m")
  case None
  then show ?thesis using assms by (simp add: handleDIAppStart_absent)
next
  case (Some c)
  show ?thesis
  proof (cases "read_error (ReqBody req)")
    case None
    then have "req' = req\<lparr>ReqBody := NopCloser_NewReader (pending (ReqBody req))\<rparr>"
      using assms Some
      by (auto simp: handleDIAppStart_def Let_def ReadAll_def split: sum.splits if_splits)
    then show ?thesis using None by (simp add: ReadAll_def NopCloser_NewReader_def)
  next
    case (Some e)
    then show ?thesis using assms \<open>di_ledgerClient m = Some c\<close>
      by (simp add: handleDIAppStart_def Let_def ReadAll_def)
  qed
qed

theorem request_body_restored_witness:
  "enableProductPassport (NewDIMiddleware (Some stub_client) True) \<and>
   handleDIAppStart (NewDIMiddleware (Some stub_client) True) app_start_request world0
     = (None, app_start_request,
        world0\<lparr>trace := [Enter HandleDIAppStart, LedgerGet ''example-product-id'',
                          Log Info ''Retrieved product item passport''
                            [(''uuid'', ''example-product-id''), (''records'', ''2'')]]\<rparr>) \<and>
   ReadAll (ReqBody app_start_request) = (''{productId: abc}'', None)"
proof -
  let ?m = "NewDIMiddleware (Some stub_client) True"
  let ?s = "world0\<lparr>trace := [Enter HandleDIAppStart, LedgerGet ''example-product-id'',
                          Log Info ''Retrieved product item passport''
                            [(''uuid'', ''example-product-id''), (''records'', ''2'')]]\<rparr>"
  have e: "enableProductPassport ?m" by (simp add: NewDIMiddleware_def)
  have r: "handleDIAppStart ?m app_start_request world0 = (None, app_start_request, ?s)"
    by (simp add: handleDIAppStart_def NewDIMiddleware_def app_start_request_def world0_def
          stub_client_def ReadAll_def NopCloser_NewReader_def extractProductID_def
          HasPrefix_def emit_def Sprintf_d_def digits.simps digit_char_def Let_def)
  show ?thesis
    using request_body_restored [OF e r] e r
    by (simp add: app_start_request_def ReadAll_def)
qed

subsection \<open>The dispatcher's two loops\<close>





lemma modifyResponse_loop_steps: "steps s (snd (snd (modifyResponse_loop mws resp s)))"
proof (induction mws arbitrary: resp s)
  case Nil
  show ?case by simp
next
  case (Cons mw mws)
  obtain e r s' where p: "ProcessResponse mw resp s = (e, r, s')"
    by (cases "ProcessResponse mw resp s") auto
  then have st: "steps s s'" using ProcessResponse_steps [of s mw resp] by simp
  show ?case
  proof (cases e)
    case None
    then show ?thesis using p st Cons.IH [where resp = r and s = s'] by (auto intro: steps_trans)
  next
    case (Some err)
    let ?s = "emit (Log Error ''Middleware response processing failed'' [(''error'', err)]) s'"
    have "steps s' ?s" by (simp add: steps_emit)
    then have "steps s ?s" using st by (rule steps_trans [rotated])
    then show ?thesis using p Some Cons.IH [where resp = r and s = ?s] by (auto intro: steps_trans)
  qed
qed


lemma processRequest_loop_append_None:
  "processRequest_loop xs req s = (None, req1, s1) \<Longrightarrow>
   processRequest_loop (xs @ ys) req s = processRequest_loop ys req1 s1"
  by (induction xs arbitrary: req s) (auto split: prod.splits option.splits)

lemma processRequest_loop_steps: "steps s (snd (snd (processRequest_loop mws req s)))"
proof (induction mws arbitrary: req s)
  case Nil
  show ?case by simp
next
  case (Cons mw mws)
  obtain e r s' where p: "ProcessRequest mw req s = (e, r, s')"
    by (cases "ProcessRequest mw req s") auto
  then have st: "steps s s'" using ProcessRequest_steps [of s mw req] by simp
  show ?case
  proof (cases e)
    case None
    then show ?thesis using p st Cons.IH [where req = r and s = s'] by (auto intro: steps_trans)
  next
    case (Some err)
    then show ?thesis using p st by simp
  qed
qed

lemma ServeHTTP_trace:
  "\<exists>b rp. trace (ServeHTTP ev p r s) = trace s @ [Forward r] @ b @ [Reply rp]
          \<and> list_all is_interceptor_event b"
proof (cases "backend ev r")
  case (Inl err)
  then have "trace (ServeHTTP ev p r s) = trace s @ [Forward r] @ [] @ [Reply bad_gateway]"
    by (simp add: ServeHTTP_def Let_def)
  then have "trace (ServeHTTP ev p r s) = trace s @ [Forward r] @ [] @ [Reply bad_gateway]
      \<and> list_all is_interceptor_event []"
    by simp
  then show ?thesis by blast
next
  case (Inr resp)
  let ?s = "emit (Forward r) s"
  obtain e resp' s' where m: "modifyResponse p resp ?s = (e, resp', s')"
    by (cases "modifyResponse p resp ?s") auto
  then have "steps ?s s'"
    using modifyResponse_loop_steps [of ?s "middleware p" resp] by (simp add: modifyResponse_def)
  then obtain b where b: "trace s' = trace ?s @ b" "list_all is_interceptor_event b"
    unfolding steps_iff by blast
  have "\<exists>rp. trace (ServeHTTP ev p r s) = trace s' @ [Reply rp]"
    using Inr m by (cases e) (simp_all add: ServeHTTP_def Let_def)
  then obtain rp where "trace (ServeHTTP ev p r s) = trace s @ [Forward r] @ b @ [Reply rp]"
    using b by auto
  then show ?thesis using b(2) by blast
qed


lemma filter_Forward_interceptor:
  "list_all is_interceptor_event b \<Longrightarrow> filter is_Forward b = []"
proof -
  assume "list_all is_interceptor_event b"
  moreover have "is_interceptor_event e \<Longrightarrow> \<not> is_Forward e" for e by (cases e) auto
  ultimately show ?thesis by (auto simp: list_all_iff filter_empty_conv)
qed

lemma handler_error:
  assumes "processRequest p req s = (Some e, req', s')"
  shows "handler ev p req s =
           emit (Reply (http_Error ''Internal Server Error'' 500))
             (emit (Log Error ''Request processing failed'' [(''error'', e)]) s')"
    and "filter is_Forward (added s (handler ev p req s)) = []"
proof -
  show h: "handler ev p req s =
           emit (Reply (http_Error ''Internal Server Error'' 500))
             (emit (Log Error ''Request processing failed'' [(''error'', e)]) s')"
    using assms by (simp add: handler_def)
  have "steps s s'"
    using processRequest_loop_steps [of s "middleware p" req] assms
    by (simp add: processRequest_def)
  then obtain a where a: "trace s' = trace s @ a" "list_all is_interceptor_event a"
    unfolding steps_iff by blast
  have "added s (handler ev p req s)
        = a @ [Log Error ''Request processing failed'' [(''error'', e)],
               Reply (http_Error ''Internal Server Error'' 500)]"
    using a(1) by (simp add: h added_def)
  then show "filter is_Forward (added s (handler ev p req s)) = []"
    using filter_Forward_interceptor [OF a(2)] by simp
qed

lemma handler_forward:
  assumes "processRequest p req s = (None, req', s')"
  shows "handler ev p req s = ServeHTTP ev p req' s'"
    and "filter is_Forward (added s (handler ev p req s)) = [Forward req']"
proof -
  show h: "handler ev p req s = ServeHTTP ev p req' s'"
    using assms by (simp add: handler_def)
  have "steps s s'"
    using processRequest_loop_steps [of s "middleware p" req] assms
    by (simp add: processRequest_def)
  then obtain a where a: "trace s' = trace s @ a" "list_all is_interceptor_event a"
    unfolding steps_iff by blast
  obtain b rp where b: "trace (ServeHTTP ev p req' s') = trace s' @ [Forward req'] @ b @ [Reply rp]"
      "list_all is_interceptor_event b"
    using ServeHTTP_trace [of ev p req' s'] by blast
  have "added s (handler ev p req s) = a @ [Forward req'] @ b @ [Reply rp]"
    using a(1) b(1) by (simp add: h added_def)
  then show "filter is_Forward (added s (handler ev p req s)) = [Forward req']"
    using filter_Forward_interceptor [OF a(2)] filter_Forward_interceptor [OF b(2)] by simp
qed

subsection \<open>The dispatcher\<close>





lemma all_return_nil_iff:
  "all_return_nil mws req s \<longleftrightarrow> fst (processRequest_loop mws req s) = None"
  by (induction mws arbitrary: req s) (auto split: prod.splits option.splits)

text \<open>C2. The dispatcher runs \<open>ProcessRequest\<close> of the interceptors in chain order, each
  on the request and the world its predecessors left, and stops at the first error: the
  result is that error, wrapped, with the request and the world as the failing interceptor
  left them, whatever interceptors come after it. When some interceptor returns an error
  the handler logs it, answers the client with status 500 and hands no request to the
  reverse proxy; when all return nil the handler hands the request, as the interceptors
  left it, to the reverse proxy, once.\<close>

theorem request_chain_hard_failure:
  "(processRequest_loop xs req s = (None, req1, s1) \<and>
    ProcessRequest mw req1 s1 = (Some err, req2, s2) \<longrightarrow>
      processRequest_loop (xs @ mw # ys) req s
        = (Some (Errorf ''middleware request processing failed: '' err), req2, s2)) \<and>
   (processRequest_loop xs req s = (None, req1, s1) \<longrightarrow>
      processRequest_loop (xs @ ys) req s = processRequest_loop ys req1 s1) \<and>
   (\<not> all_return_nil (middleware p) req s \<longrightarrow>
      (\<exists>e. fst (processRequest p req s) = Some e \<and>
           handler ev p req s
             = emit (Reply (http_Error ''Internal Server Error'' 500))
                 (emit (Log Error ''Request processing failed'' [(''error'', e)])
                    (snd (snd (processRequest p req s))))) \<and>
      StatusCode (http_Error ''Internal Server Error'' 500) = 500 \<and>
      filter is_Forward (added s (handler ev p req s)) = []) \<and>
   (all_return_nil (middleware p) req s \<longrightarrow>
      fst (processRequest p req s) = None \<and>
      handler ev p req s
        = ServeHTTP ev p (fst (snd (processRequest p req s))) (snd (snd (processRequest p req s))) \<and>
      filter is_Forward (added s (handler ev p req s))
        = [Forward (fst (snd (processRequest p req s)))])"
proof (intro conjI impI)
  assume h: "processRequest_loop xs req s = (None, req1, s1) \<and>
    ProcessRequest mw req1 s1 = (Some err, req2, s2)"
  then have "processRequest_loop (xs @ mw # ys) req s = processRequest_loop (mw # ys) req1 s1"
    by (simp add: processRequest_loop_append_None)
  then show "processRequest_loop (xs @ mw # ys) req s
        = (Some (Errorf ''middleware request processing failed: '' err), req2, s2)"
    using h by simp
next
  assume "processRequest_loop xs req s = (None, req1, s1)"
  then show "processRequest_loop (xs @ ys) req s = processRequest_loop ys req1 s1"
    by (rule processRequest_loop_append_None)
next
  assume h: "\<not> all_return_nil (middleware p) req s"
  obtain r req' s' where pr: "processRequest p req s = (r, req', s')"
    by (cases "processRequest p req s") auto
  then have "r \<noteq> None" using h by (simp add: all_return_nil_iff processRequest_def)
  then obtain e where e: "r = Some e" by auto
  have "fst (processRequest p req s) = Some e \<and>
        handler ev p req s
          = emit (Reply (http_Error ''Internal Server Error'' 500))
              (emit (Log Error ''Request processing failed'' [(''error'', e)])
                 (snd (snd (processRequest p req s))))"
    using handler_error(1) [of p req s e req' s' ev] pr e by simp
  then show "\<exists>e. fst (processRequest p req s) = Some e \<and>
        handler ev p req s
          = emit (Reply (http_Error ''Internal Server Error'' 500))
              (emit (Log Error ''Request processing failed'' [(''error'', e)])
                 (snd (snd (processRequest p req s))))"
    by blast
  show "StatusCode (http_Error ''Internal Server Error'' 500) = 500"
    by (simp add: http_Error_def)
  show "filter is_Forward (added s (handler ev p req s)) = []"
    using handler_error(2) [of p req s e req' s' ev] pr e by simp
next
  assume h: "all_return_nil (middleware p) req s"
  obtain r req' s' where pr: "processRequest p req s = (r, req', s')"
    by (cases "processRequest p req s") auto
  then have r: "r = None" using h by (simp add: all_return_nil_iff processRequest_def)
  show "fst (processRequest p req s) = None" using pr r by simp
  show "handler ev p req s
        = ServeHTTP ev p (fst (snd (processRequest p req s))) (snd (snd (processRequest p req s)))"
    using handler_forward(1) [of p req s req' s' ev] pr r by simp
  show "filter is_Forward (added s (handler ev p req s))
        = [Forward (fst (snd (processRequest p req s)))]"
    using handler_forward(2) [of p req s req' s' ev] pr r by simp
qed

theorem request_chain_hard_failure_witness:
  "processRequest_loop
       ([DI (NewDIMiddleware (Some stub_client) True)] @ failing_interceptor #
        [TO2 (NewTO2Middleware (Some stub_client) ''owner-1'')])
       app_start_request world0
     = (Some ''middleware request processing failed: stub request failure'',
        app_start_request,
        world0\<lparr>trace := [Enter HandleDIAppStart, LedgerGet ''example-product-id'',
                          Log Info ''Retrieved product item passport''
                            [(''uuid'', ''example-product-id''), (''records'', ''2'')]]\<rparr>) \<and>
   \<not> all_return_nil
       (middleware (NewFDOProxy [] [] [] (Some stub_client)
          [DI (NewDIMiddleware (Some stub_client) True), failing_interceptor,
           TO2 (NewTO2Middleware (Some stub_client) ''owner-1'')]))
       app_start_request world0 \<and>
   StatusCode (http_Error ''Internal Server Error'' 500) = 500 \<and>
   filter is_Forward (added world0 (handler env0
       (NewFDOProxy [] [] [] (Some stub_client)
          [DI (NewDIMiddleware (Some stub_client) True), failing_interceptor,
           TO2 (NewTO2Middleware (Some stub_client) ''owner-1'')])
       app_start_request world0)) = [] \<and>
   all_return_nil
       (middleware (NewFDOProxy [] [] [] (Some stub_client)
          [DI (NewDIMiddleware (Some stub_client) True),
           TO2 (NewTO2Middleware (Some stub_client) ''owner-1'')]))
       app_start_request world0 \<and>
   filter is_Forward (added world0 (handler env0
       (NewFDOProxy [] [] [] (Some stub_client)
          [DI (NewDIMiddleware (Some stub_client) True),
           TO2 (NewTO2Middleware (Some stub_client) ''owner-1'')])
       app_start_request world0)) = [Forward app_start_request]"
proof -
  let ?m = "NewDIMiddleware (Some stub_client) True"
  let ?t = "NewTO2Middleware (Some stub_client) ''owner-1''"
  let ?p = "NewFDOProxy [] [] [] (Some stub_client) [DI ?m, failing_interceptor, TO2 ?t]"
  let ?q = "NewFDOProxy [] [] [] (Some stub_client) [DI ?m, TO2 ?t]"
  let ?s1 = "world0\<lparr>trace := [Enter HandleDIAppStart, LedgerGet ''example-product-id'',
                          Log Info ''Retrieved product item passport''
                            [(''uuid'', ''example-product-id''), (''records'', ''2'')]]\<rparr>"
  have hd: "handleDIAppStart ?m app_start_request world0 = (None, app_start_request, ?s1)"
    by (simp add: handleDIAppStart_def NewDIMiddleware_def app_start_request_def world0_def
          stub_client_def ReadAll_def NopCloser_NewReader_def extractProductID_def
          HasPrefix_def emit_def Sprintf_d_def digits.simps digit_char_def Let_def)
  have di: "DI_ProcessRequest ?m app_start_request world0 = handleDIAppStart ?m app_start_request world0"
    by (simp add: DI_ProcessRequest_def isDIRequest_def app_start_request_def HasPrefix_def
          HasSuffix_def Let_def)
  have to2: "TO2_ProcessRequest ?t app_start_request ?s1 = (None, app_start_request, ?s1)"
    by (simp add: TO2_ProcessRequest_def isTO2Request_def app_start_request_def HasPrefix_def
          HasSuffix_def)
  have f: "ProcessRequest failing_interceptor app_start_request ?s1
           = (Some ''stub request failure'', app_start_request, ?s1)"
    by (simp add: failing_interceptor_def)
  have h1: "processRequest_loop [DI ?m] app_start_request world0 = (None, app_start_request, ?s1) \<and>
    ProcessRequest failing_interceptor app_start_request ?s1
      = (Some ''stub request failure'', app_start_request, ?s1)"
    using f by (simp add: di hd)
  have e: "Errorf ''middleware request processing failed: '' ''stub request failure''
           = ''middleware request processing failed: stub request failure''"
    by (simp add: Errorf_def)
  have np: "\<not> all_return_nil (middleware ?p) app_start_request world0"
    using f by (simp add: NewFDOProxy_def di hd)
  have nq: "all_return_nil (middleware ?q) app_start_request world0"
    by (simp add: NewFDOProxy_def di hd to2)
  have rq: "fst (snd (processRequest ?q app_start_request world0)) = app_start_request"
    by (simp add: processRequest_def NewFDOProxy_def di hd to2)
  note A = request_chain_hard_failure [where xs = "[DI ?m]" and req = app_start_request
      and s = world0 and ?req1.0 = app_start_request and ?s1.0 = ?s1
      and mw = failing_interceptor and err = "''stub request failure''"
      and ?req2.0 = app_start_request and ?s2.0 = ?s1 and ys = "[TO2 ?t]" and p = ?p
      and ev = env0, unfolded e]
  note B = request_chain_hard_failure [where req = app_start_request and s = world0
      and p = ?q and ev = env0, unfolded rq]
  have a1: "processRequest_loop ([DI ?m] @ failing_interceptor # [TO2 ?t]) app_start_request world0
     = (Some ''middleware request processing failed: stub request failure'',
        app_start_request, ?s1)"
    using A h1 by blast
  have a2: "StatusCode (http_Error ''Internal Server Error'' 500) = 500"
    using A np by blast
  have a3: "filter is_Forward (added world0 (handler env0 ?p app_start_request world0)) = []"
    using A np by blast
  have b1: "filter is_Forward (added world0 (handler env0 ?q app_start_request world0))
            = [Forward app_start_request]"
    using B nq by blast
  show ?thesis
    using a1 np a2 a3 nq b1 by (intro conjI)
qed

subsection \<open>Request classification\<close>

lemma Enter_handleDIAppStart:
  "Enter HandleDIAppStart \<in> set (added s (snd (snd (handleDIAppStart m req s))))"
proof -
  have "\<exists>evs. trace (snd (snd (handleDIAppStart m req s)))
          = trace s @ Enter HandleDIAppStart # evs"
    by (auto simp: handleDIAppStart_def Let_def ReadAll_def split: option.splits sum.splits)
  then show ?thesis by (auto simp: added_def)
qed

text \<open>C3, as the code has it. For a request whose path is
  \<open>/{namespace}/{n}/msg/{type}\<close> (three segments without a slash),
  \<open>ProcessRequest\<close> of the Stage-A interceptor enters \<open>handleDIAppStart\<close> exactly when
  the namespace is \<open>fdo\<close>, \<open>n\<close> is \<open>101\<close> and the type is \<open>10\<close>; then it is that handler's
  call; for every other such path it returns nil, leaves the request as it is and
  records nothing, so it makes no external call.\<close>

theorem di_request_classification:
  assumes "URL_Path req = ''/'' @ ns @ ''/'' @ n @ ''/msg/'' @ t"
    and "CHR ''/'' \<notin> set ns" and "CHR ''/'' \<notin> set n" and "CHR ''/'' \<notin> set t"
  shows "(Enter HandleDIAppStart \<in> set (added s (snd (snd (DI_ProcessRequest m req s))))
            \<longleftrightarrow> ns = ''fdo'' \<and> n = ''101'' \<and> t = ''10'') \<and>
         (ns = ''fdo'' \<and> n = ''101'' \<and> t = ''10'' \<longrightarrow>
            DI_ProcessRequest m req s = handleDIAppStart m req s) \<and>
         (\<not> (ns = ''fdo'' \<and> n = ''101'' \<and> t = ''10'') \<longrightarrow>
            DI_ProcessRequest m req s = (None, req, s))"
proof -
  have sp: "Split (URL_Path req) CHR ''/'' = [[], ns, n, ''msg'', t]"
    using Split_path4 [OF assms(2-4)] assms(1) by simp
  have co: "Contains (URL_Path req) ''/fdo/101/msg/'' \<longleftrightarrow> ns = ''fdo'' \<and> n = ''101''"
    using Contains_path4 [OF assms(2-4)] assms(1) by simp
  have su: "HasSuffix (URL_Path req) ''/10''" if "t = ''10''"
  proof -
    have "URL_Path req = (''/'' @ ns @ ''/'' @ n @ ''/msg'') @ ''/10''"
      using assms(1) that by simp
    then show ?thesis by (simp only: HasSuffix_append)
  qed
  have yes: "DI_ProcessRequest m req s = handleDIAppStart m req s"
    if "ns = ''fdo'' \<and> n = ''101'' \<and> t = ''10''"
    using that co su sp by (simp add: DI_ProcessRequest_def isDIRequest_def Let_def)
  have no: "DI_ProcessRequest m req s = (None, req, s)"
    if "\<not> (ns = ''fdo'' \<and> n = ''101'' \<and> t = ''10'')"
    using that co sp by (auto simp: DI_ProcessRequest_def isDIRequest_def Let_def)
  show ?thesis
  proof (cases "ns = ''fdo'' \<and> n = ''101'' \<and> t = ''10''")
    case True
    then show ?thesis using yes Enter_handleDIAppStart [of s m req] by simp
  next
    case False
    then have d: "DI_ProcessRequest m req s = (None, req, s)" by (rule no)
    have "Enter HandleDIAppStart \<notin> set (added s (snd (snd (DI_ProcessRequest m req s))))"
      by (simp add: d)
    then show ?thesis using False d by blast
  qed
qed

theorem di_request_classification_witness:
  "URL_Path app_start_request = ''/'' @ ''fdo'' @ ''/'' @ ''101'' @ ''/msg/'' @ ''10'' \<and>
   Enter HandleDIAppStart \<in> set (added world0 (snd (snd
     (DI_ProcessRequest (NewDIMiddleware (Some stub_client) True) app_start_request world0)))) \<and>
   DI_ProcessRequest (NewDIMiddleware (Some stub_client) True) app_start_request world0
     = handleDIAppStart (NewDIMiddleware (Some stub_client) True) app_start_request world0 \<and>
   URL_Path (app_start_request\<lparr>URL_Path := ''/fdo/101/msg/12''\<rparr>)
     = ''/'' @ ''fdo'' @ ''/'' @ ''101'' @ ''/msg/'' @ ''12'' \<and>
   DI_ProcessRequest (NewDIMiddleware (Some stub_client) True)
       (app_start_request\<lparr>URL_Path := ''/fdo/101/msg/12''\<rparr>) world0
     = (None, app_start_request\<lparr>URL_Path := ''/fdo/101/msg/12''\<rparr>, world0)"
proof -
  let ?m = "NewDIMiddleware (Some stub_client) True"
  let ?r = "app_start_request\<lparr>URL_Path := ''/fdo/101/msg/12''\<rparr>"
  have p1: "URL_Path app_start_request = ''/'' @ ''fdo'' @ ''/'' @ ''101'' @ ''/msg/'' @ ''10''"
    by (simp add: app_start_request_def)
  have p2: "URL_Path ?r = ''/'' @ ''fdo'' @ ''/'' @ ''101'' @ ''/msg/'' @ ''12''"
    by simp
  have s1: "CHR ''/'' \<notin> set ''fdo''" by simp
  have s2: "CHR ''/'' \<notin> set ''101''" by simp
  have s3: "CHR ''/'' \<notin> set ''10''" by simp
  have s4: "CHR ''/'' \<notin> set ''12''" by simp
  note A = di_request_classification [OF p1 s1 s2 s3, of world0 ?m]
  note B = di_request_classification [OF p2 s1 s2 s4, of world0 ?m]
  have a1: "Enter HandleDIAppStart \<in> set (added world0 (snd (snd
     (DI_ProcessRequest ?m app_start_request world0))))"
    using A by blast
  have a2: "DI_ProcessRequest ?m app_start_request world0
     = handleDIAppStart ?m app_start_request world0"
    using A by blast
  have ne: "\<not> (''fdo'' = ''fdo'' \<and> ''101'' = ''101'' \<and> ''12'' = ''10'')" by simp
  have b1: "DI_ProcessRequest ?m ?r world0 = (None, ?r, world0)"
    using B ne by blast
  show ?thesis using p1 a1 a2 p2 b1 by (intro conjI)
qed

text \<open>C3, as it is stated, fails: the path \<open>/abc/1/msg/10\<close> has the form
  \<open>/{namespace}/{n}/msg/{type}\<close> with type \<open>10\<close>, and the handler is not entered.\<close>

theorem di_request_classification_counterexample:
  "URL_Path (app_start_request\<lparr>URL_Path := ''/abc/1/msg/10''\<rparr>)
     = ''/'' @ ''abc'' @ ''/'' @ ''1'' @ ''/msg/'' @ ''10'' \<and>
   Split (URL_Path (app_start_request\<lparr>URL_Path := ''/abc/1/msg/10''\<rparr>)) CHR ''/''
     = [[], ''abc'', ''1'', ''msg'', ''10''] \<and>
   DI_ProcessRequest (NewDIMiddleware (Some stub_client) True)
       (app_start_request\<lparr>URL_Path := ''/abc/1/msg/10''\<rparr>) world0
     = (None, app_start_request\<lparr>URL_Path := ''/abc/1/msg/10''\<rparr>, world0) \<and>
   Enter HandleDIAppStart \<notin> set (added world0 (snd (snd
     (DI_ProcessRequest (NewDIMiddleware (Some stub_client) True)
        (app_start_request\<lparr>URL_Path := ''/abc/1/msg/10''\<rparr>) world0))))"
  by (simp add: DI_ProcessRequest_def isDIRequest_def HasPrefix_def HasSuffix_def added_def)

subsection \<open>The backend supervisor\<close>

lemma startBackendServer_eq:
  "startBackendServer ev p s =
     (case cmd_Start ev (trace s) (backend_command p) of
        Inl err \<Rightarrow>
          (Some (Errorf ''failed to start FDO server: '' err),
           p\<lparr>backendCmd := Some (backend_command p, None)\<rparr>,
           emit (Spawn (backend_command p) (Inl err)) s)
      | Inr pid \<Rightarrow>
          (None,
           p\<lparr>backendCmd := Some (backend_command p, Some pid)\<rparr>,
           emit (Log Info ''Backend FDO server started''
                   [(''pid'', Sprintf_d (int pid)), (''port'', Sprintf_d (backendPort p))])
             (emit (Spawn (backend_command p) (Inr pid)) s)))"
  by (simp add: startBackendServer_def backend_command_def Let_def split: sum.splits)

lemma backend_command_backendCmd [simp]:
  "backend_command (p\<lparr>backendCmd := c\<rparr>) = backend_command p"
  by (simp add: backend_command_def)

text \<open>C9, as the code has it. \<open>startBackendServer\<close> does not look at whether a backend
  was started before: whatever \<open>backendCmd\<close> holds, it launches the backend command, and
  it returns an error exactly when that launch fails. So a second call after a first one
  that succeeded launches the same command again, returns nil when the launch succeeds,
  and two launches are on record.\<close>

theorem second_start_launches_again:
  "(fst (startBackendServer ev p s) = None
      \<longleftrightarrow> (\<exists>pid. cmd_Start ev (trace s) (backend_command p) = Inr pid)) \<and>
   added s (snd (snd (startBackendServer ev (p\<lparr>backendCmd := c\<rparr>) s)))
     = added s (snd (snd (startBackendServer ev p s))) \<and>
   fst (startBackendServer ev (p\<lparr>backendCmd := c\<rparr>) s) = fst (startBackendServer ev p s) \<and>
   filter is_Spawn (added s (snd (snd (startBackendServer ev p s))))
     = [Spawn (backend_command p) (cmd_Start ev (trace s) (backend_command p))] \<and>
   (startBackendServer ev p s = (None, p1, s1) \<longrightarrow>
      backend_command p1 = backend_command p \<and>
      (fst (startBackendServer ev p1 s1) = None
         \<longleftrightarrow> (\<exists>pid. cmd_Start ev (trace s1) (backend_command p) = Inr pid)) \<and>
      filter is_Spawn (added s (snd (snd (startBackendServer ev p1 s1))))
        = [Spawn (backend_command p) (cmd_Start ev (trace s) (backend_command p)),
           Spawn (backend_command p) (cmd_Start ev (trace s1) (backend_command p))])"
proof (intro conjI impI)
  show a: "fst (startBackendServer ev p s) = None
      \<longleftrightarrow> (\<exists>pid. cmd_Start ev (trace s) (backend_command p) = Inr pid)" for p s
    by (simp add: startBackendServer_eq split: sum.splits)
  show "added s (snd (snd (startBackendServer ev (p\<lparr>backendCmd := c\<rparr>) s)))
     = added s (snd (snd (startBackendServer ev p s)))"
    by (simp add: startBackendServer_eq split: sum.splits)
  show "fst (startBackendServer ev (p\<lparr>backendCmd := c\<rparr>) s) = fst (startBackendServer ev p s)"
    by (simp add: startBackendServer_eq split: sum.splits)
  show b: "filter is_Spawn (added s (snd (snd (startBackendServer ev p s))))
     = [Spawn (backend_command p) (cmd_Start ev (trace s) (backend_command p))]" for p s
    by (simp add: startBackendServer_eq added_def split: sum.splits)
  assume h: "startBackendServer ev p s = (None, p1, s1)"
  then obtain pid where pid: "cmd_Start ev (trace s) (backend_command p) = Inr pid"
    using a [where p = p and s = s] by auto
  have p1: "p1 = p\<lparr>backendCmd := Some (backend_command p, Some pid)\<rparr>"
    using h pid by (simp add: startBackendServer_eq)
  have s1: "trace s1 = trace s @ [Spawn (backend_command p) (Inr pid),
              Log Info ''Backend FDO server started''
                   [(''pid'', Sprintf_d (int pid)), (''port'', Sprintf_d (backendPort p))]]"
    using h pid by (auto simp: startBackendServer_eq)
  show c: "backend_command p1 = backend_command p" by (simp add: p1)
  show "fst (startBackendServer ev p1 s1) = None
         \<longleftrightarrow> (\<exists>pid. cmd_Start ev (trace s1) (backend_command p) = Inr pid)"
    using a [where p = p1 and s = s1] c by simp
  obtain evs where evs: "trace (snd (snd (startBackendServer ev p1 s1))) = trace s1 @ evs"
    by (cases "cmd_Start ev (trace s1) (backend_command p1)")
      (simp_all add: startBackendServer_eq)
  have e1: "added s1 (snd (snd (startBackendServer ev p1 s1))) = evs"
    using evs by (simp add: added_def)
  have e2: "added s (snd (snd (startBackendServer ev p1 s1)))
        = [Spawn (backend_command p) (Inr pid),
           Log Info ''Backend FDO server started''
             [(''pid'', Sprintf_d (int pid)), (''port'', Sprintf_d (backendPort p))]] @ evs"
    using evs s1 by (simp add: added_def)
  show "filter is_Spawn (added s (snd (snd (startBackendServer ev p1 s1))))
        = [Spawn (backend_command p) (cmd_Start ev (trace s) (backend_command p)),
           Spawn (backend_command p) (cmd_Start ev (trace s1) (backend_command p))]"
    using b [where p = p1 and s = s1] e1 c pid by (simp add: e2)
qed

lemma started_once_eq:
  "started_once =
     (None,
      (NewFDOProxy [] [] [] None [])
        \<lparr>backendCmd := Some (backend_command (NewFDOProxy [] [] [] None []), Some 4242)\<rparr>,
      world0\<lparr>trace := [Spawn (backend_command (NewFDOProxy [] [] [] None [])) (Inr 4242),
                        Log Info ''Backend FDO server started''
                          [(''pid'', ''4242''), (''port'', ''8081'')]]\<rparr>)"
  by (simp add: started_once_def startBackendServer_eq env0_def world0_def emit_def
        NewFDOProxy_def Sprintf_d_def digits.simps digit_char_def)

lemma backend_command_New:
  "backend_command (NewFDOProxy a b c client mws) =
     \<lparr>cmd_name = ''go'',
      cmd_args = [''run'', ''./cmd/server'', ''-db'', ''./fdo-backend.db'',
                  ''-http'', ''localhost:8081'', ''-debug''],
      cmd_dir = ''../go-fdo''\<rparr>"
  by (simp add: backend_command_def NewFDOProxy_def Sprintf_d_def digits.simps digit_char_def)

theorem second_start_launches_again_witness:
  "startBackendServer env0 (NewFDOProxy [] [] [] None []) world0
     = (None, fst (snd started_once), snd (snd started_once)) \<and>
   backendCmd (fst (snd started_once))
     = Some (backend_command (NewFDOProxy [] [] [] None []), Some 4242) \<and>
   fst (startBackendServer env0 (fst (snd started_once)) (snd (snd started_once))) = None \<and>
   filter is_Spawn (added world0
       (snd (snd (startBackendServer env0 (fst (snd started_once)) (snd (snd started_once))))))
     = [Spawn (backend_command (NewFDOProxy [] [] [] None [])) (Inr 4242),
        Spawn (backend_command (NewFDOProxy [] [] [] None [])) (Inr 4242)]"
proof -
  let ?p = "NewFDOProxy [] [] [] None []"
  have h: "startBackendServer env0 ?p world0
     = (None, fst (snd started_once), snd (snd started_once))"
    using started_once_eq by (simp add: started_once_def)
  have c: "backendCmd (fst (snd started_once)) = Some (backend_command ?p, Some 4242)"
    by (simp add: started_once_eq)
  have l1: "cmd_Start env0 (trace world0) (backend_command ?p) = Inr 4242"
    by (simp add: env0_def)
  have l2: "cmd_Start env0 (trace (snd (snd started_once))) (backend_command ?p) = Inr 4242"
    by (simp add: env0_def)
  note A = second_start_launches_again [where ev = env0 and p = ?p and s = world0
      and ?p1.0 = "fst (snd started_once)" and ?s1.0 = "snd (snd started_once)",
      unfolded l1 l2]
  have a1: "fst (startBackendServer env0 (fst (snd started_once)) (snd (snd started_once))) = None"
    using A h by blast
  have a2: "filter is_Spawn (added world0
       (snd (snd (startBackendServer env0 (fst (snd started_once)) (snd (snd started_once))))))
     = [Spawn (backend_command ?p) (Inr 4242), Spawn (backend_command ?p) (Inr 4242)]"
    using A h by blast
  show ?thesis using h c a1 a2 by (intro conjI)
qed

text \<open>C9, as it is stated, fails: after a first call that returned nil and stored the
  started process, a second call returns nil too, and a second process is launched.\<close>

theorem second_start_counterexample:
  "fst started_once = None \<and>
   backendCmd (fst (snd started_once))
     = Some (\<lparr>cmd_name = ''go'',
              cmd_args = [''run'', ''./cmd/server'', ''-db'', ''./fdo-backend.db'',
                          ''-http'', ''localhost:8081'', ''-debug''],
              cmd_dir = ''../go-fdo''\<rparr>, Some 4242) \<and>
   fst started_twice = None \<and>
   length (filter is_Spawn (trace (snd (snd started_twice)))) = 2"
  by (simp add: started_twice_def started_once_eq backend_command_New startBackendServer_eq
        env0_def world0_def emit_def)

text \<open>C10. The proxy that \<open>NewFDOProxy\<close> builds does not depend on its \<open>fdoServerPath\<close>,
  \<open>fdoArgs\<close> and \<open>listenAddr\<close> arguments: the backend port is 8081, and the command
  that \<open>startBackendServer\<close> launches and stores for it is
  \<open>go run ./cmd/server -db ./fdo-backend.db -http localhost:8081 -debug\<close> in the
  directory \<open>../go-fdo\<close>. So the \<open>-fdo-path\<close> flag that \<open>main\<close> passes on changes neither
  the proxy nor what starting its backend does.\<close>

theorem constructor_ignores_backend_arguments:
  "NewFDOProxy fdoServerPath fdoArgs listenAddr client mws
     = NewFDOProxy fdoServerPath' fdoArgs' listenAddr' client mws \<and>
   backendPort (NewFDOProxy fdoServerPath fdoArgs listenAddr client mws) = 8081 \<and>
   map_option fst (backendCmd (fst (snd
       (startBackendServer ev (NewFDOProxy fdoServerPath fdoArgs listenAddr client mws) s))))
     = Some \<lparr>cmd_name = ''go'',
             cmd_args = [''run'', ''./cmd/server'', ''-db'', ''./fdo-backend.db'',
                         ''-http'', ''localhost:8081'', ''-debug''],
             cmd_dir = ''../go-fdo''\<rparr> \<and>
   filter is_Spawn (added s (snd (snd
       (startBackendServer ev (NewFDOProxy fdoServerPath fdoArgs listenAddr client mws) s))))
     = [Spawn \<lparr>cmd_name = ''go'',
               cmd_args = [''run'', ''./cmd/server'', ''-db'', ''./fdo-backend.db'',
                           ''-http'', ''localhost:8081'', ''-debug''],
               cmd_dir = ''../go-fdo''\<rparr>
          (cmd_Start ev (trace s)
             \<lparr>cmd_name = ''go'',
              cmd_args = [''run'', ''./cmd/server'', ''-db'', ''./fdo-backend.db'',
                          ''-http'', ''localhost:8081'', ''-debug''],
              cmd_dir = ''../go-fdo''\<rparr>)] \<and>
   main_proxy (fl\<lparr>flag_fdo_path := path\<rparr>) newClient = main_proxy fl newClient \<and>
   startBackendServer ev (main_proxy (fl\<lparr>flag_fdo_path := path\<rparr>) newClient) s
     = startBackendServer ev (main_proxy fl newClient) s"
proof (intro conjI)
  show "NewFDOProxy fdoServerPath fdoArgs listenAddr client mws
     = NewFDOProxy fdoServerPath' fdoArgs' listenAddr' client mws"
    by (simp add: NewFDOProxy_def)
  show "backendPort (NewFDOProxy fdoServerPath fdoArgs listenAddr client mws) = 8081"
    by (simp add: NewFDOProxy_def)
  show "map_option fst (backendCmd (fst (snd
       (startBackendServer ev (NewFDOProxy fdoServerPath fdoArgs listenAddr client mws) s))))
     = Some \<lparr>cmd_name = ''go'',
             cmd_args = [''run'', ''./cmd/server'', ''-db'', ''./fdo-backend.db'',
                         ''-http'', ''localhost:8081'', ''-debug''],
             cmd_dir = ''../go-fdo''\<rparr>"
    by (simp add: startBackendServer_eq backend_command_New split: sum.splits)
  show "filter is_Spawn (added s (snd (snd
       (startBackendServer ev (NewFDOProxy fdoServerPath fdoArgs listenAddr client mws) s))))
     = [Spawn \<lparr>cmd_name = ''go'',
               cmd_args = [''run'', ''./cmd/server'', ''-db'', ''./fdo-backend.db'',
                           ''-http'', ''localhost:8081'', ''-debug''],
               cmd_dir = ''../go-fdo''\<rparr>
          (cmd_Start ev (trace s)
             \<lparr>cmd_name = ''go'',
              cmd_args = [''run'', ''./cmd/server'', ''-db'', ''./fdo-backend.db'',
                          ''-http'', ''localhost:8081'', ''-debug''],
              cmd_dir = ''../go-fdo''\<rparr>)]"
    by (simp add: startBackendServer_eq backend_command_New added_def split: sum.splits)
  show m: "main_proxy (fl\<lparr>flag_fdo_path := path\<rparr>) newClient = main_proxy fl newClient"
    by (simp add: main_proxy_def main_ledgerClient_def main_middlewareList_def NewFDOProxy_def
          Let_def)
  show "startBackendServer ev (main_proxy (fl\<lparr>flag_fdo_path := path\<rparr>) newClient) s
     = startBackendServer ev (main_proxy fl newClient) s"
    by (simp only: m)
qed

theorem constructor_ignores_backend_arguments_witness:
  "NewFDOProxy ''/opt/other-fdo'' [''-x''] ''0.0.0.0:9999'' None []
     = NewFDOProxy ''../go-fdo'' [] ''localhost:8080'' None [] \<and>
   backendPort (NewFDOProxy ''/opt/other-fdo'' [''-x''] ''0.0.0.0:9999'' None []) = 8081 \<and>
   map_option fst (backendCmd (fst (snd
       (startBackendServer env0 (NewFDOProxy ''/opt/other-fdo'' [''-x''] ''0.0.0.0:9999'' None [])
          world0))))
     = Some \<lparr>cmd_name = ''go'',
             cmd_args = [''run'', ''./cmd/server'', ''-db'', ''./fdo-backend.db'',
                         ''-http'', ''localhost:8081'', ''-debug''],
             cmd_dir = ''../go-fdo''\<rparr>"
proof -
  note A = constructor_ignores_backend_arguments [where fdoServerPath = "''/opt/other-fdo''"
      and fdoArgs = "[''-x'']" and listenAddr = "''0.0.0.0:9999''" and client = None
      and mws = "[]" and fdoServerPath' = "''../go-fdo''" and fdoArgs' = "[]"
      and listenAddr' = "''localhost:8080''" and ev = env0 and s = world0]
  have a1: "NewFDOProxy ''/opt/other-fdo'' [''-x''] ''0.0.0.0:9999'' None []
     = NewFDOProxy ''../go-fdo'' [] ''localhost:8080'' None []"
    using A by blast
  have a2: "backendPort (NewFDOProxy ''/opt/other-fdo'' [''-x''] ''0.0.0.0:9999'' None []) = 8081"
    using A by blast
  have a3: "map_option fst (backendCmd (fst (snd
       (startBackendServer env0 (NewFDOProxy ''/opt/other-fdo'' [''-x''] ''0.0.0.0:9999'' None [])
          world0))))
     = Some \<lparr>cmd_name = ''go'',
             cmd_args = [''run'', ''./cmd/server'', ''-db'', ''./fdo-backend.db'',
                         ''-http'', ''localhost:8081'', ''-debug''],
             cmd_dir = ''../go-fdo''\<rparr>"
    using A by blast
  show ?thesis using a1 a2 a3 by (intro conjI)
qed

subsection \<open>Start\<close>

lemma waitForBackend_loop_trace:
  "\<exists>k. trace (snd (waitForBackend_loop port evs s))
         = trace s @ map (Probe port) (replicate k False) @
           (if fst (waitForBackend_loop port evs s) = Returns None then [Probe port True] else [])"
proof (induction port evs s rule: waitForBackend_loop.induct)
  case (1 port s)
  have "trace s = trace s @ map (Probe port) (replicate 0 False)" by simp
  then show ?case by (intro exI [of _ 0]) simp
next
  case (2 port evs s)
  have "trace s = trace s @ map (Probe port) (replicate 0 False)" by simp
  then show ?case by (intro exI [of _ 0]) simp
next
  case (3 port ok evs s)
  show ?case
  proof (cases ok)
    case True
    show ?thesis by (intro exI [of _ 0]) (simp add: True)
  next
    case False
    let ?s1 = "emit (Probe port False) s"
    from 3 [of ?s1] False obtain k where
      k: "trace (snd (waitForBackend_loop port evs ?s1))
         = trace ?s1 @ map (Probe port) (replicate k False) @
           (if fst (waitForBackend_loop port evs ?s1) = Returns None then [Probe port True] else [])"
      by auto
    show ?thesis
      by (intro exI [of _ "Suc k"]) (simp add: False k)
  qed
qed

lemma handler_trace: "\<exists>evs. trace (handler ev p r s) = trace s @ evs"
proof -
  obtain e r' s' where pr: "processRequest p r s = (e, r', s')"
    by (cases "processRequest p r s") auto
  have "steps s s'"
    using processRequest_loop_steps [of s "middleware p" r] pr by (simp add: processRequest_def)
  then obtain a where a: "trace s' = trace s @ a" unfolding steps_iff by blast
  show ?thesis
  proof (cases e)
    case None
    obtain b rp where "trace (ServeHTTP ev p r' s') = trace s' @ [Forward r'] @ b @ [Reply rp]"
      using ServeHTTP_trace [of ev p r' s'] by blast
    then show ?thesis using pr None a by (simp add: handler_def)
  next
    case (Some err)
    then show ?thesis using pr a by (simp add: handler_def)
  qed
qed

lemma fold_handler_trace: "\<exists>served. trace (fold (handler ev p) reqs s) = trace s @ served"
proof (induction reqs arbitrary: s)
  case Nil
  show ?case by simp
next
  case (Cons r reqs)
  obtain a where a: "trace (handler ev p r s) = trace s @ a"
    using handler_trace [of ev p r s] by blast
  obtain b where "trace (fold (handler ev p) reqs (handler ev p r s)) = trace (handler ev p r s) @ b"
    using Cons [of "handler ev p r s"] by blast
  then show ?case using a by simp
qed

text \<open>C7. In the events of a call of \<open>Start\<close>, a request is handed to the reverse proxy
  (and the listener is bound) only in an execution of this shape: the backend process is
  launched successfully, then its health endpoint is probed until a probe succeeds, then
  the listener is bound, and only then requests are served. So every forwarded request
  comes after the successful probe, which comes after the launch; when the launch fails,
  or the wait ends with the timeout or never ends, nothing is bound and nothing is
  forwarded.\<close>

theorem readiness_gating:
  assumes "Forward r \<in> set (added s (snd (snd (Start ev p addr s)))) \<or>
           Listen a \<in> set (added s (snd (snd (Start ev p addr s))))"
  shows "\<exists>pid k served.
           added s (snd (snd (Start ev p addr s)))
             = [Spawn (backend_command p) (Inr pid),
                Log Info ''Backend FDO server started''
                  [(''pid'', Sprintf_d (int pid)), (''port'', Sprintf_d (backendPort p))]]
               @ map (Probe (backendPort p)) (replicate k False)
               @ [Probe (backendPort p) True,
                  Log Info ''FDO proxy server starting''
                    [(''listen_addr'', addr), (''backend_port'', Sprintf_d (backendPort p))],
                  Listen addr]
               @ served \<and>
           fst (startBackendServer ev p s) = None \<and>
           fst (waitForBackend ev (fst (snd (startBackendServer ev p s)))
                  (snd (snd (startBackendServer ev p s)))) = Returns None"
proof (cases "cmd_Start ev (trace s) (backend_command p)")
  case (Inl err)
  then have "added s (snd (snd (Start ev p addr s))) = [Spawn (backend_command p) (Inl err)]"
    by (simp add: Start_def startBackendServer_eq added_def)
  then show ?thesis using assms by simp
next
  case (Inr pid)
  let ?l1 = "Log Info ''Backend FDO server started''
                  [(''pid'', Sprintf_d (int pid)), (''port'', Sprintf_d (backendPort p))]"
  let ?l2 = "Log Info ''FDO proxy server starting''
                    [(''listen_addr'', addr), (''backend_port'', Sprintf_d (backendPort p))]"
  let ?p1 = "p\<lparr>backendCmd := Some (backend_command p, Some pid)\<rparr>"
  let ?s1 = "emit ?l1 (emit (Spawn (backend_command p) (Inr pid)) s)"
  let ?port = "backendPort p"
  have sb: "startBackendServer ev p s = (None, ?p1, ?s1)"
    using Inr by (simp add: startBackendServer_eq)
  obtain w s2 where wb: "waitForBackend ev ?p1 ?s1 = (w, s2)"
    by (cases "waitForBackend ev ?p1 ?s1") auto
  obtain k where k: "trace s2 = trace ?s1 @ map (Probe ?port) (replicate k False) @
           (if w = Returns None then [Probe ?port True] else [])"
    using waitForBackend_loop_trace [of ?port "selects ev" ?s1] wb
    by (auto simp: waitForBackend_def)
  have t1: "trace ?s1 = trace s @ [Spawn (backend_command p) (Inr pid), ?l1]"
    by simp
  show ?thesis
  proof (cases "w = Returns None")
    case False
    then have st: "snd (snd (Start ev p addr s)) = s2"
      using sb wb by (cases w) (auto simp: Start_def split: option.splits)
    have "added s s2 = [Spawn (backend_command p) (Inr pid), ?l1]
                        @ map (Probe ?port) (replicate k False)"
      using k False by (simp add: added_def)
    then have "Forward r \<notin> set (added s s2) \<and> Listen a \<notin> set (added s s2)"
      by auto
    then show ?thesis using assms st by simp
  next
    case True
    have t2: "added s s2 = [Spawn (backend_command p) (Inr pid), ?l1]
                        @ map (Probe ?port) (replicate k False) @ [Probe ?port True]"
      using k True by (simp add: added_def)
    have g: "fst (startBackendServer ev p s) = None \<and>
             fst (waitForBackend ev (fst (snd (startBackendServer ev p s)))
                  (snd (snd (startBackendServer ev p s)))) = Returns None"
      using sb wb True by simp
    show ?thesis
    proof (cases "?port < 0")
      case neg: True
      then have st: "snd (snd (Start ev p addr s)) = s2"
        using sb wb \<open>w = Returns None\<close> by (simp add: Start_def url_Parse_backend_def Let_def)
      have "Forward r \<notin> set (added s s2) \<and> Listen a \<notin> set (added s s2)"
        by (auto simp: t2)
      then show ?thesis using assms st by simp
    next
      case pos: False
      let ?p2 = "?p1\<lparr>backendURL := Some (''http://localhost:'' @ Sprintf_d ?port),
                       server := Some addr\<rparr>"
      let ?s3 = "emit ?l2 s2"
      have st: "snd (snd (Start ev p addr s)) = snd (ListenAndServe ev ?p2 addr ?s3)"
        using sb wb \<open>w = Returns None\<close> pos
        by (simp add: Start_def url_Parse_backend_def Let_def split: prod.splits)
      show ?thesis
      proof (cases "bind ev addr")
        case (Some err)
        then have "snd (ListenAndServe ev ?p2 addr ?s3) = ?s3"
          by (simp add: ListenAndServe_def)
        then have "added s (snd (snd (Start ev p addr s)))
                   = [Spawn (backend_command p) (Inr pid), ?l1]
                        @ map (Probe ?port) (replicate k False) @ [Probe ?port True, ?l2]"
          using st k \<open>w = Returns None\<close> by (simp add: added_def)
        then have "Forward r \<notin> set (added s (snd (snd (Start ev p addr s)))) \<and>
                   Listen a \<notin> set (added s (snd (snd (Start ev p addr s))))"
          by auto
        then show ?thesis using assms by simp
      next
        case None
        let ?s4 = "emit (Listen addr) ?s3"
        obtain served where sv: "trace (fold (handler ev ?p2) (incoming ev) ?s4)
                                 = trace ?s4 @ served"
          using fold_handler_trace [of ev ?p2 "incoming ev" ?s4] by blast
        have "snd (ListenAndServe ev ?p2 addr ?s3) = fold (handler ev ?p2) (incoming ev) ?s4"
          using None by (simp add: ListenAndServe_def Let_def)
        then have "added s (snd (snd (Start ev p addr s)))
                   = [Spawn (backend_command p) (Inr pid), ?l1]
                        @ map (Probe ?port) (replicate k False)
                        @ [Probe ?port True, ?l2, Listen addr] @ served"
          using st sv k \<open>w = Returns None\<close> by (simp add: added_def)
        then show ?thesis using g by blast
      qed
    qed
  qed
qed

lemma Start_example_trace:
  "added world0 (snd (snd (Start env0
       (NewFDOProxy [] [] [] (Some stub_client)
          [DI (NewDIMiddleware (Some stub_client) True),
           TO2 (NewTO2Middleware (Some stub_client) ''owner-1'')])
       ''localhost:8080'' world0)))
   = [Spawn (backend_command (NewFDOProxy [] [] [] (Some stub_client) [])) (Inr 4242),
      Log Info ''Backend FDO server started'' [(''pid'', ''4242''), (''port'', ''8081'')],
      Probe 8081 False,
      Probe 8081 True,
      Log Info ''FDO proxy server starting''
        [(''listen_addr'', ''localhost:8080''), (''backend_port'', ''8081'')],
      Listen ''localhost:8080'',
      Enter HandleDIAppStart,
      LedgerGet ''example-product-id'',
      Log Info ''Retrieved product item passport''
        [(''uuid'', ''example-product-id''), (''records'', ''2'')],
      Forward app_start_request,
      Enter HandleTO2Done2,
      LedgerCreate \<lparr>ControllerUUID = ''example-device-guid'', Cert = [],
                    DeployedLocation = [], Timestamp = ''1700000000123456789''\<rparr>,
      Log Info ''Created commissioning passport'' [(''controller_uuid'', ''example-device-guid'')],
      Reply done2_response]"
proof -
  let ?m = "NewDIMiddleware (Some stub_client) True"
  let ?t = "NewTO2Middleware (Some stub_client) ''owner-1''"
  have n: "Sprintf_d 8081 = ''8081''" "Sprintf_d 4242 = ''4242''" "Sprintf_d 2 = ''2''"
    "Sprintf_d 1700000000123456789 = ''1700000000123456789''"
    by (simp_all add: Sprintf_d_def digits.simps digit_char_def)
  have di: "DI_ProcessRequest ?m app_start_request s = handleDIAppStart ?m app_start_request s" for s
    by (simp add: DI_ProcessRequest_def isDIRequest_def app_start_request_def HasPrefix_def
          HasSuffix_def Let_def)
  have hd: "handleDIAppStart ?m app_start_request s
      = (None, app_start_request,
         emit (Log Info ''Retrieved product item passport''
                 [(''uuid'', ''example-product-id''), (''records'', ''2'')])
           (emit (LedgerGet ''example-product-id'') (emit (Enter HandleDIAppStart) s)))" for s
    by (simp add: handleDIAppStart_def NewDIMiddleware_def app_start_request_def
          stub_client_def ReadAll_def NopCloser_NewReader_def extractProductID_def
          HasPrefix_def n Let_def)
  have to2: "TO2_ProcessRequest ?t app_start_request s = (None, app_start_request, s)" for s
    by (simp add: TO2_ProcessRequest_def isTO2Request_def app_start_request_def HasPrefix_def
          HasSuffix_def)
  have dr: "DI_ProcessResponse ?m done2_response s = (None, done2_response, s)" for s
    by (simp add: DI_ProcessResponse_def isDIResponse_def done2_response_def Header_Get_def)
  have tr: "now s = 1700000000123456789 \<Longrightarrow> TO2_ProcessResponse ?t done2_response s
      = (None, done2_response,
         emit (Log Info ''Created commissioning passport''
                 [(''controller_uuid'', ''example-device-guid'')])
           (emit (LedgerCreate \<lparr>ControllerUUID = ''example-device-guid'', Cert = [],
                    DeployedLocation = [], Timestamp = ''1700000000123456789''\<rparr>)
              (emit (Enter HandleTO2Done2) s)))" for s
    by (simp add: TO2_ProcessResponse_def isTO2Response_def Header_Get_def handleTO2Done2_def
          NewTO2Middleware_def stub_client_def extractDeviceGUID_def n Let_def
          done2_response_def)
  have nw: "now world0 = 1700000000123456789" and tw: "trace world0 = []"
    by (simp_all add: world0_def)
  show ?thesis
    by (simp add: Start_def startBackendServer_eq backend_command_def waitForBackend_def
          url_Parse_backend_def ListenAndServe_def handler_def processRequest_def
          ServeHTTP_def modifyResponse_def NewFDOProxy_def env0_def n di hd to2 dr tr nw tw
          added_def Let_def)
qed

theorem readiness_gating_witness:
  "Forward app_start_request \<in> set (added world0 (snd (snd (Start env0
       (NewFDOProxy [] [] [] (Some stub_client)
          [DI (NewDIMiddleware (Some stub_client) True),
           TO2 (NewTO2Middleware (Some stub_client) ''owner-1'')])
       ''localhost:8080'' world0)))) \<and>
   (\<exists>pid k served.
      added world0 (snd (snd (Start env0
         (NewFDOProxy [] [] [] (Some stub_client)
            [DI (NewDIMiddleware (Some stub_client) True),
             TO2 (NewTO2Middleware (Some stub_client) ''owner-1'')])
         ''localhost:8080'' world0)))
      = [Spawn (backend_command (NewFDOProxy [] [] [] (Some stub_client)
            [DI (NewDIMiddleware (Some stub_client) True),
             TO2 (NewTO2Middleware (Some stub_client) ''owner-1'')])) (Inr pid),
         Log Info ''Backend FDO server started''
           [(''pid'', Sprintf_d (int pid)), (''port'', Sprintf_d 8081)]]
        @ map (Probe 8081) (replicate k False)
        @ [Probe 8081 True,
           Log Info ''FDO proxy server starting''
             [(''listen_addr'', ''localhost:8080''), (''backend_port'', Sprintf_d 8081)],
           Listen ''localhost:8080'']
        @ served)"
proof -
  let ?p = "NewFDOProxy [] [] [] (Some stub_client)
          [DI (NewDIMiddleware (Some stub_client) True),
           TO2 (NewTO2Middleware (Some stub_client) ''owner-1'')]"
  have h: "Forward app_start_request
             \<in> set (added world0 (snd (snd (Start env0 ?p ''localhost:8080'' world0))))"
    by (simp add: Start_example_trace)
  then have h': "Forward app_start_request
             \<in> set (added world0 (snd (snd (Start env0 ?p ''localhost:8080'' world0)))) \<or>
           Listen ''localhost:8080''
             \<in> set (added world0 (snd (snd (Start env0 ?p ''localhost:8080'' world0))))"
    by (rule disjI1)
  have port: "backendPort ?p = 8081" by (simp add: NewFDOProxy_def)
  note A = readiness_gating [OF h', unfolded port]
  from A obtain pid k served where
    "added world0 (snd (snd (Start env0 ?p ''localhost:8080'' world0)))
      = [Spawn (backend_command ?p) (Inr pid),
         Log Info ''Backend FDO server started''
           [(''pid'', Sprintf_d (int pid)), (''port'', Sprintf_d 8081)]]
        @ map (Probe 8081) (replicate k False)
        @ [Probe 8081 True,
           Log Info ''FDO proxy server starting''
             [(''listen_addr'', ''localhost:8080''), (''backend_port'', Sprintf_d 8081)],
           Listen ''localhost:8080'']
        @ served"
    by blast
  then have "\<exists>pid k served.
      added world0 (snd (snd (Start env0 ?p ''localhost:8080'' world0)))
      = [Spawn (backend_command ?p) (Inr pid),
         Log Info ''Backend FDO server started''
           [(''pid'', Sprintf_d (int pid)), (''port'', Sprintf_d 8081)]]
        @ map (Probe 8081) (replicate k False)
        @ [Probe 8081 True,
           Log Info ''FDO proxy server starting''
             [(''listen_addr'', ''localhost:8080''), (''backend_port'', Sprintf_d 8081)],
           Listen ''localhost:8080'']
        @ served"
    by blast
  then show ?thesis using h by (intro conjI)
qed

end
